theory Spec2Isabelle
  imports Main
begin

section \<open>The interruption controller (pkg/controllers/interruption/controller.go)\<close>

text \<open>
  The controller polls a queue for interruption messages and, for every message, acts on
  the NodeClaims of the instances the message names. Everything it does besides computing
  is a call on a collaborator: the queue provider, the cluster client, the event recorder,
  the unavailable-offerings cache, the metrics and the logger. The model writes every such
  call down, in order, as an \<open>effect\<close>; a call that answers carries its answer.
  A function of the controller takes the history of the calls made so far and returns its
  result together with the calls it made itself. The collaborators are the fields of
  an \<open>env\<close>: each answers from the history and the arguments of the call, so an
  answer may depend on everything that happened before (a second delete of the same
  NodeClaim may answer differently from the first).
\<close>

subsection \<open>Errors\<close>

text \<open>
  A Go \<open>error\<close> value that is not nil. \<open>ErrorString\<close> is a plain error,
  \<open>NotFoundStatus\<close> an API status error that \<open>apierrors.IsNotFound\<close> accepts,
  \<open>OtherStatus\<close> any other API status error, \<open>Errorf s e\<close> is
  \<open>fmt.Errorf("s, %w", e)\<close> and \<open>MultiError\<close> is the error of multierr
  holding several errors. A nil error is \<open>None\<close> of \<open>error option\<close>.
\<close>

datatype error =
    ErrorString string
  | NotFoundStatus string
  | OtherStatus string
  | Errorf string error
  | MultiError "error list"

text \<open>
  \<open>errors.As\<close> for an API status: the first status error met walking the chain
  of wrapped errors, depth first; \<open>Some True\<close> when it is a not-found status.
\<close>

fun firstStatus :: "error \<Rightarrow> bool option" where
  "firstStatus (ErrorString s) = None"
| "firstStatus (NotFoundStatus s) = Some True"
| "firstStatus (OtherStatus s) = Some False"
| "firstStatus (Errorf s e) = firstStatus e"
| "firstStatus (MultiError es) =
     (case filter (\<lambda>r. r \<noteq> None) (map firstStatus es) of [] \<Rightarrow> None | r # rs \<Rightarrow> r)"

definition IsNotFound :: "error \<Rightarrow> bool" where
  "IsNotFound e = (firstStatus e = Some True)"

text \<open>\<open>client.IgnoreNotFound\<close>, on an error that is not nil.\<close>

definition IgnoreNotFound :: "error \<Rightarrow> error option" where
  "IgnoreNotFound e = (if IsNotFound e then None else Some e)"

text \<open>
  multierr: \<open>Errors\<close> lists the errors an error holds, \<open>fromSlice\<close> builds the
  combined error of a list of errors that are not nil, \<open>Append\<close> and
  \<open>Combine\<close> drop the nil errors first.
\<close>

fun Errors :: "error \<Rightarrow> error list" where
  "Errors (MultiError es) = es"
| "Errors e = [e]"

fun fromSlice :: "error list \<Rightarrow> error option" where
  "fromSlice [] = None"
| "fromSlice [e] = Some e"
| "fromSlice es = Some (MultiError (concat (map Errors es)))"

fun nonNil :: "error option list \<Rightarrow> error list" where
  "nonNil [] = []"
| "nonNil (None # es) = nonNil es"
| "nonNil (Some e # es) = e # nonNil es"

definition Combine :: "error option list \<Rightarrow> error option" where
  "Combine errs = fromSlice (nonNil errs)"

definition Append :: "error option \<Rightarrow> error option \<Rightarrow> error option" where
  "Append left right = fromSlice (nonNil [left, right])"

subsection \<open>Messages, NodeClaims, Nodes\<close>

text \<open>
  \<open>messages.Kind\<close> is a string type with five constants; \<open>UnknownKind s\<close> is
  any other string.
\<close>

datatype Kind =
    ScheduledChangeKind
  | SpotInterruptionKind
  | RebalanceRecommendationKind
  | StateChangeKind
  | NoOpKind
  | UnknownKind string

text \<open>
  A parsed message with the three methods of \<open>messages.Message\<close>. \<open>DetailState\<close>
  is \<open>Detail.State\<close> of a \<open>statechange.Message\<close>, read for
  \<open>StateChangeKind\<close> only. Times are integers (nanoseconds), 0 being Go's zero time.
\<close>

record Message =
  Kind :: Kind
  EC2InstanceIDs :: "string list"
  StartTime :: int
  DetailState :: string

datatype Action = CordonAndDrain | NoAction

text \<open>
  The controller reads a NodeClaim's name, labels, provider id and deletion timestamp, and
  copies its generate-name, annotations, labels, owner references and spec, which stay
  opaque here. A Go map of strings is an association list read with \<open>map_of\<close>; a
  missing key reads as the empty string.
\<close>

type_synonym StringMap = "(string \<times> string) list"

definition index :: "StringMap \<Rightarrow> string \<Rightarrow> string" where
  "index m k = (case map_of m k of None \<Rightarrow> [] | Some v \<Rightarrow> v)"

record NodeClaimStatus =
  ProviderID :: string
  ImageID :: string

record NodeClaim =
  Name :: string
  GenerateName :: string
  Annotations :: StringMap
  Labels :: StringMap
  OwnerReferences :: "string list"
  DeletionTimestamp :: "int option"
  Spec :: string
  Status :: NodeClaimStatus

record Node =
  NodeName :: string
  NodeProviderID :: string

text \<open>\<open>(*metav1.Time).IsZero\<close>: a nil pointer or the zero time.\<close>

fun IsZero :: "int option \<Rightarrow> bool" where
  "IsZero None = True"
| "IsZero (Some t) = (t = 0)"

text \<open>
  \<open>time.Duration\<close> is an int64 of nanoseconds. \<open>Sub t u\<close> is \<open>t.Sub(u)\<close> of
  package time on two wall-clock times: the difference when it fits a Duration, and
  otherwise the least Duration when \<open>t\<close> is before \<open>u\<close> and the greatest when it
  is not. \<open>time.Since(u)\<close> is \<open>Sub\<close> of the clock and \<open>u\<close>.
\<close>

definition minDuration :: int where
  "minDuration = - (2 ^ 63)"

definition maxDuration :: int where
  "maxDuration = 2 ^ 63 - 1"

definition Sub :: "int \<Rightarrow> int \<Rightarrow> int" where
  "Sub t u =
     (if minDuration \<le> t - u \<and> t - u \<le> maxDuration then t - u
      else if t < u then minDuration
      else maxDuration)"

text \<open>A pointer to a \<open>sqsapi.Message\<close>: \<open>None\<close> is the nil pointer.\<close>

record SQSMessage =
  MessageId :: "string option"
  ReceiptHandle :: "string option"
  Body :: "string option"

type_synonym raw = "SQSMessage option"

text \<open>
  The label keys and the capacity type the controller uses, constants of
  \<open>k8s.io/api/core/v1\<close> and of \<open>sigs.k8s.io/karpenter/pkg/apis/v1beta1\<close>.
\<close>

definition LabelTopologyZone :: string where
  "LabelTopologyZone = ''topology.kubernetes.io/zone''"

definition LabelInstanceTypeStable :: string where
  "LabelInstanceTypeStable = ''node.kubernetes.io/instance-type''"

definition NodePoolLabelKey :: string where
  "NodePoolLabelKey = ''karpenter.sh/nodepool''"

definition CapacityTypeLabelKey :: string where
  "CapacityTypeLabelKey = ''karpenter.sh/capacity-type''"

definition CapacityTypeSpot :: string where
  "CapacityTypeSpot = ''spot''"

subsection \<open>Calls on the collaborators\<close>

datatype InterruptionEvent =
    RebalanceRecommendation
  | Unhealthy
  | SpotInterrupted
  | Stopping
  | Terminating
  | TerminatingOnInterruption

text \<open>
  One constructor for each call the controller makes. The metrics are
  \<open>receivedMessages\<close>, \<open>deletedMessages\<close>, \<open>actionsPerformed\<close>,
  \<open>messageLatency\<close> and \<open>NodeClaimsTerminatedCounter\<close>; the last carries its
  node pool and capacity type labels, its reason label being the constant
  \<open>terminationReasonLabel\<close> of the package. The latency observed is the Duration
  that \<open>time.Since\<close> returns, in nanoseconds, before its conversion to seconds. \<open>Cache_MarkUnavailable\<close> carries the
  reason, the instance type, the zone and the capacity type, in the order of the call;
  the reason is the kind of the message, which the call converts to a string.
\<close>

datatype effect =
    SQS_GetSQSMessages "error + raw list"
  | SQS_DeleteSQSMessage raw "error option"
  | Kube_ListNodeClaims "error + NodeClaim list"
  | Kube_ListNodes "error + Node list"
  | Kube_Create NodeClaim "error option"
  | Kube_Delete NodeClaim "error option"
  | Parser_Parse string
  | Recorder_Publish InterruptionEvent "Node option" NodeClaim
  | Cache_MarkUnavailable Kind string string string
  | Metric_receivedMessages_Inc Kind
  | Metric_deletedMessages_Inc
  | Metric_actionsPerformed_Inc Action
  | Metric_messageLatency_Observe int
  | Metric_NodeClaimsTerminated_Inc string string
  | Log_Errorf string error
  | Log_Infof string

type_synonym history = "effect list"

text \<open>
  The collaborators. \<open>ParseInstanceID\<close> (pkg/utils) and the event parser are pure
  functions of their argument; \<open>Now\<close> is the wall clock \<open>time.Since\<close> reads.
\<close>

record env =
  GetSQSMessages :: "history \<Rightarrow> error + raw list"
  DeleteSQSMessage :: "history \<Rightarrow> raw \<Rightarrow> error option"
  ListNodeClaims :: "history \<Rightarrow> error + NodeClaim list"
  ListNodes :: "history \<Rightarrow> error + Node list"
  Create :: "history \<Rightarrow> NodeClaim \<Rightarrow> error option"
  Delete :: "history \<Rightarrow> NodeClaim \<Rightarrow> error option"
  Parse :: "string \<Rightarrow> error + Message"
  ParseInstanceID :: "string \<Rightarrow> error + string"
  Now :: "history \<Rightarrow> int"

subsection \<open>The action of a message and its notification\<close>

definition actionForMessage :: "Message \<Rightarrow> Action" where
  "actionForMessage msg =
     (case Kind msg of
        ScheduledChangeKind \<Rightarrow> CordonAndDrain
      | SpotInterruptionKind \<Rightarrow> CordonAndDrain
      | StateChangeKind \<Rightarrow> CordonAndDrain
      | _ \<Rightarrow> NoAction)"

definition notifyForMessage :: "Message \<Rightarrow> NodeClaim \<Rightarrow> Node option \<Rightarrow> effect list" where
  "notifyForMessage msg nodeClaim n =
     (case Kind msg of
        RebalanceRecommendationKind \<Rightarrow> [Recorder_Publish RebalanceRecommendation n nodeClaim]
      | ScheduledChangeKind \<Rightarrow> [Recorder_Publish Unhealthy n nodeClaim]
      | SpotInterruptionKind \<Rightarrow> [Recorder_Publish SpotInterrupted n nodeClaim]
      | StateChangeKind \<Rightarrow>
          (if DetailState msg \<in> set [''stopping'', ''stopped'']
           then [Recorder_Publish Stopping n nodeClaim]
           else [Recorder_Publish Terminating n nodeClaim])
      | _ \<Rightarrow> [])"

subsection \<open>Creating and deleting a NodeClaim\<close>

text \<open>
  The object \<open>createNodeClaim\<close> builds: the fields the composite literal does not set
  hold their zero value.
\<close>

definition newNodeClaim :: "NodeClaim \<Rightarrow> NodeClaim" where
  "newNodeClaim oldNodeClaim =
     \<lparr> Name = [],
       GenerateName = GenerateName oldNodeClaim,
       Annotations = Annotations oldNodeClaim,
       Labels = Labels oldNodeClaim,
       OwnerReferences = OwnerReferences oldNodeClaim,
       DeletionTimestamp = None,
       Spec = Spec oldNodeClaim,
       Status = \<lparr> ProviderID = [], ImageID = [] \<rparr> \<rparr>"

definition createNodeClaim :: "env \<Rightarrow> history \<Rightarrow> NodeClaim \<Rightarrow> error option \<times> effect list" where
  "createNodeClaim c h oldNodeClaim =
     (let r = Create c h (newNodeClaim oldNodeClaim)
      in (r, [Kube_Create (newNodeClaim oldNodeClaim) r]))"

definition deleteNodeClaim ::
  "env \<Rightarrow> history \<Rightarrow> NodeClaim \<Rightarrow> Node option \<Rightarrow> error option \<times> effect list" where
  "deleteNodeClaim c h nodeClaim node =
     (if \<not> IsZero (DeletionTimestamp nodeClaim) then (None, [])
      else
        (case Delete c h nodeClaim of
           Some err \<Rightarrow>
             (IgnoreNotFound (Errorf ''deleting the node on interruption message'' err),
              [Kube_Delete nodeClaim (Some err)])
         | None \<Rightarrow>
             (None,
              [Kube_Delete nodeClaim None,
               Log_Infof ''initiating delete from interruption message'',
               Recorder_Publish TerminatingOnInterruption node nodeClaim,
               Metric_NodeClaimsTerminated_Inc
                 (index (Labels nodeClaim) NodePoolLabelKey)
                 (index (Labels nodeClaim) CapacityTypeLabelKey)])))"

subsection \<open>Handling one NodeClaim\<close>

text \<open>
  The block of \<open>handleNodeClaim\<close> that runs for a spot interruption: the mark in the
  unavailable-offerings cache, then the replacement NodeClaim, whose error is logged and
  dropped.
\<close>

definition spotInterruption :: "env \<Rightarrow> history \<Rightarrow> Message \<Rightarrow> NodeClaim \<Rightarrow> effect list" where
  "spotInterruption c h msg nodeClaim =
     (let zone = index (Labels nodeClaim) LabelTopologyZone;
          instanceType = index (Labels nodeClaim) LabelInstanceTypeStable;
          mark = (if zone \<noteq> [] \<and> instanceType \<noteq> []
                  then [Cache_MarkUnavailable (Kind msg) instanceType zone CapacityTypeSpot]
                  else []);
          cr = createNodeClaim c (h @ mark) nodeClaim
      in mark @ snd cr @
         (case fst cr of
            Some err \<Rightarrow> [Log_Errorf ''[interruption handling]failed to create a new nodeclaim'' err]
          | None \<Rightarrow> []))"

definition handleNodeClaim ::
  "env \<Rightarrow> history \<Rightarrow> Message \<Rightarrow> NodeClaim \<Rightarrow> Node option \<Rightarrow> error option \<times> effect list" where
  "handleNodeClaim c h msg nodeClaim node =
     (let action = actionForMessage msg;
          es1 = notifyForMessage msg nodeClaim node @ [Metric_actionsPerformed_Inc action];
          es2 = (if Kind msg = SpotInterruptionKind
                 then spotInterruption c (h @ es1) msg nodeClaim else [])
      in if action \<noteq> NoAction
         then (let d = deleteNodeClaim c (h @ es1 @ es2) nodeClaim node
               in (fst d, es1 @ es2 @ snd d))
         else (None, es1 @ es2))"

subsection \<open>Handling one message\<close>

text \<open>
  The loop of \<open>handleMessage\<close> over the instance ids of the message; \<open>err\<close> is
  the error accumulated so far.
\<close>

fun handleInstances ::
  "env \<Rightarrow> (string \<rightharpoonup> NodeClaim) \<Rightarrow> (string \<rightharpoonup> Node) \<Rightarrow> history \<Rightarrow> Message \<Rightarrow>
   string list \<Rightarrow> error option \<Rightarrow> error option \<times> effect list" where
  "handleInstances c nodeClaimInstanceIDMap nodeInstanceIDMap h msg [] err = (err, [])"
| "handleInstances c nodeClaimInstanceIDMap nodeInstanceIDMap h msg (instanceID # ids) err =
     (case nodeClaimInstanceIDMap instanceID of
        None \<Rightarrow> handleInstances c nodeClaimInstanceIDMap nodeInstanceIDMap h msg ids err
      | Some nodeClaim \<Rightarrow>
          (let r = handleNodeClaim c h msg nodeClaim (nodeInstanceIDMap instanceID);
               err' = (case fst r of Some e \<Rightarrow> Append err (Some e) | None \<Rightarrow> err);
               rest = handleInstances c nodeClaimInstanceIDMap nodeInstanceIDMap
                        (h @ snd r) msg ids err'
           in (fst rest, snd r @ snd rest)))"

definition handleMessage ::
  "env \<Rightarrow> (string \<rightharpoonup> NodeClaim) \<Rightarrow> (string \<rightharpoonup> Node) \<Rightarrow> history \<Rightarrow> Message \<Rightarrow>
   error option \<times> effect list" where
  "handleMessage c nodeClaimInstanceIDMap nodeInstanceIDMap h msg =
     (let es0 = [Metric_receivedMessages_Inc (Kind msg)]
      in if Kind msg = NoOpKind then (None, es0)
         else
           (let r = handleInstances c nodeClaimInstanceIDMap nodeInstanceIDMap (h @ es0) msg
                      (EC2InstanceIDs msg) None;
                es1 = es0 @ snd r;
                es2 = es1 @ [Metric_messageLatency_Observe (Sub (Now c (h @ es1)) (StartTime msg))]
            in (case fst r of
                  Some err \<Rightarrow> (Some (Errorf ''acting on NodeClaims'' err), es2)
                | None \<Rightarrow> (None, es2))))"

subsection \<open>Parsing and deleting a queue message\<close>

definition parseMessage :: "env \<Rightarrow> raw \<Rightarrow> (error + Message) \<times> effect list" where
  "parseMessage c raw =
     (case raw of
        None \<Rightarrow> (Inl (ErrorString ''message or message body is nil''), [])
      | Some r \<Rightarrow>
          (case Body r of
             None \<Rightarrow> (Inl (ErrorString ''message or message body is nil''), [])
           | Some body \<Rightarrow>
               (case Parse c body of
                  Inl err \<Rightarrow> (Inl (Errorf ''parsing sqs message'' err), [Parser_Parse body])
                | Inr msg \<Rightarrow> (Inr msg, [Parser_Parse body]))))"

definition deleteMessage :: "env \<Rightarrow> history \<Rightarrow> raw \<Rightarrow> error option \<times> effect list" where
  "deleteMessage c h msg =
     (case DeleteSQSMessage c h msg of
        Some err \<Rightarrow> (Some (Errorf ''deleting sqs message'' err), [SQS_DeleteSQSMessage msg (Some err)])
      | None \<Rightarrow> (None, [SQS_DeleteSQSMessage msg None, Metric_deletedMessages_Inc]))"

subsection \<open>The two indexes\<close>

text \<open>The loops over the listed items; a later item replaces an earlier one of the same id.\<close>

fun nodeClaimItems ::
  "env \<Rightarrow> NodeClaim list \<Rightarrow> (string \<rightharpoonup> NodeClaim) \<Rightarrow> (string \<rightharpoonup> NodeClaim)" where
  "nodeClaimItems c [] m = m"
| "nodeClaimItems c (item # items) m =
     (if ProviderID (Status item) = [] then nodeClaimItems c items m
      else
        (case ParseInstanceID c (ProviderID (Status item)) of
           Inl err \<Rightarrow> nodeClaimItems c items m
         | Inr i \<Rightarrow>
             (if i = [] then nodeClaimItems c items m
              else nodeClaimItems c items (m(i \<mapsto> item)))))"

fun nodeItems :: "env \<Rightarrow> Node list \<Rightarrow> (string \<rightharpoonup> Node) \<Rightarrow> (string \<rightharpoonup> Node)" where
  "nodeItems c [] m = m"
| "nodeItems c (item # items) m =
     (if NodeProviderID item = [] then nodeItems c items m
      else
        (case ParseInstanceID c (NodeProviderID item) of
           Inl err \<Rightarrow> nodeItems c items m
         | Inr i \<Rightarrow>
             (if i = [] then nodeItems c items m
              else nodeItems c items (m(i \<mapsto> item)))))"

definition makeNodeClaimInstanceIDMap ::
  "env \<Rightarrow> history \<Rightarrow> (error + (string \<rightharpoonup> NodeClaim)) \<times> effect list" where
  "makeNodeClaimInstanceIDMap c h =
     (case ListNodeClaims c h of
        Inl err \<Rightarrow> (Inl err, [Kube_ListNodeClaims (Inl err)])
      | Inr items \<Rightarrow> (Inr (nodeClaimItems c items Map.empty), [Kube_ListNodeClaims (Inr items)]))"

definition makeNodeInstanceIDMap ::
  "env \<Rightarrow> history \<Rightarrow> (error + (string \<rightharpoonup> Node)) \<times> effect list" where
  "makeNodeInstanceIDMap c h =
     (case ListNodes c h of
        Inl err \<Rightarrow> (Inl (Errorf ''listing nodes'' err), [Kube_ListNodes (Inl err)])
      | Inr items \<Rightarrow> (Inr (nodeItems c items Map.empty), [Kube_ListNodes (Inr items)]))"

subsection \<open>Reconcile\<close>

text \<open>
  The function \<open>Reconcile\<close> hands to \<open>workqueue.ParallelizeUntil\<close>, for one
  message: its result is what it stores in its own slot of \<open>errs\<close>.
\<close>

definition doWorkPiece ::
  "env \<Rightarrow> (string \<rightharpoonup> NodeClaim) \<Rightarrow> (string \<rightharpoonup> Node) \<Rightarrow> history \<Rightarrow> raw \<Rightarrow>
   error option \<times> effect list" where
  "doWorkPiece c nodeClaimInstanceIDMap nodeInstanceIDMap h sqsMessage =
     (let p = parseMessage c sqsMessage
      in (case fst p of
            Inl e \<Rightarrow>
              (let es = snd p @ [Log_Errorf ''parsing message'' e];
                   d = deleteMessage c (h @ es) sqsMessage
               in (fst d, es @ snd d))
          | Inr msg \<Rightarrow>
              (let r = handleMessage c nodeClaimInstanceIDMap nodeInstanceIDMap (h @ snd p) msg
               in (case fst r of
                     Some e \<Rightarrow> (Some (Errorf ''handling message'' e), snd p @ snd r)
                   | None \<Rightarrow>
                       (let d = deleteMessage c (h @ snd p @ snd r) sqsMessage
                        in (fst d, snd p @ snd r @ snd d))))))"

text \<open>
  \<open>ParallelizeUntil\<close> runs the piece of every index, on ten workers. The model runs
  the pieces one after the other in the order of the indexes, under a context that is
  not cancelled: it gives, for every index, the slot of \<open>errs\<close> and the calls of
  that piece. A piece writes no slot but its own. What the theorems say of one piece
  holds from every history the piece may start with.
\<close>

fun ParallelizeUntil ::
  "env \<Rightarrow> (string \<rightharpoonup> NodeClaim) \<Rightarrow> (string \<rightharpoonup> Node) \<Rightarrow> history \<Rightarrow> raw list \<Rightarrow>
   (error option \<times> effect list) list" where
  "ParallelizeUntil c nodeClaimInstanceIDMap nodeInstanceIDMap h [] = []"
| "ParallelizeUntil c nodeClaimInstanceIDMap nodeInstanceIDMap h (sqsMessage # rest) =
     (let p = doWorkPiece c nodeClaimInstanceIDMap nodeInstanceIDMap h sqsMessage
      in p # ParallelizeUntil c nodeClaimInstanceIDMap nodeInstanceIDMap (h @ snd p) rest)"

text \<open>
  \<open>Reconcile\<close> returns an empty \<open>reconcile.Result\<close> on every path; the model
  returns its error. The debug line it logs when the name of the queue changes is left
  out.
\<close>

definition Reconcile :: "env \<Rightarrow> history \<Rightarrow> error option \<times> effect list" where
  "Reconcile c h =
     (case GetSQSMessages c h of
        Inl err \<Rightarrow>
          (Some (Errorf ''getting messages from queue'' err), [SQS_GetSQSMessages (Inl err)])
      | Inr sqsMessages \<Rightarrow>
          (let es0 = [SQS_GetSQSMessages (Inr sqsMessages)]
           in if length sqsMessages = 0 then (None, es0)
              else
                (let a = makeNodeClaimInstanceIDMap c (h @ es0)
                 in (case fst a of
                       Inl err \<Rightarrow>
                         (Some (Errorf ''making nodeclaim instance id map'' err), es0 @ snd a)
                     | Inr nodeClaimInstanceIDMap \<Rightarrow>
                         (let b = makeNodeInstanceIDMap c (h @ es0 @ snd a)
                          in (case fst b of
                                Inl err \<Rightarrow>
                                  (Some (Errorf ''making node instance id map'' err),
                                   es0 @ snd a @ snd b)
                              | Inr nodeInstanceIDMap \<Rightarrow>
                                  (let ps = ParallelizeUntil c nodeClaimInstanceIDMap
                                              nodeInstanceIDMap (h @ es0 @ snd a @ snd b)
                                              sqsMessages
                                   in (Combine (map fst ps),
                                       es0 @ snd a @ snd b @ concat (map snd ps)))))))))"

subsection \<open>Reading a run of Reconcile\<close>

text \<open>
  What \<open>Reconcile c h\<close> holds when it reaches \<open>ParallelizeUntil\<close>: the
  messages, the two indexes and the history; \<open>None\<close> when it returns before.
\<close>

definition fanOut ::
  "env \<Rightarrow> history \<Rightarrow>
   (raw list \<times> (string \<rightharpoonup> NodeClaim) \<times> (string \<rightharpoonup> Node) \<times> history) option" where
  "fanOut c h =
     (case GetSQSMessages c h of
        Inl err \<Rightarrow> None
      | Inr sqsMessages \<Rightarrow>
          (if sqsMessages = [] then None
           else
             (let h1 = h @ [SQS_GetSQSMessages (Inr sqsMessages)];
                  a = makeNodeClaimInstanceIDMap c h1
              in (case fst a of
                    Inl err \<Rightarrow> None
                  | Inr nodeClaimInstanceIDMap \<Rightarrow>
                      (let b = makeNodeInstanceIDMap c (h1 @ snd a)
                       in (case fst b of
                             Inl err \<Rightarrow> None
                           | Inr nodeInstanceIDMap \<Rightarrow>
                               Some (sqsMessages, nodeClaimInstanceIDMap, nodeInstanceIDMap,
                                     h1 @ snd a @ snd b)))))))"

text \<open>The history with which the piece of index \<open>i\<close> starts.\<close>

definition pieceHistory ::
  "env \<Rightarrow> (string \<rightharpoonup> NodeClaim) \<Rightarrow> (string \<rightharpoonup> Node) \<Rightarrow> history \<Rightarrow> raw list \<Rightarrow> nat \<Rightarrow>
   history" where
  "pieceHistory c m n h raws i = h @ concat (map snd (take i (ParallelizeUntil c m n h raws)))"

text \<open>The calls \<open>handleNodeClaim\<close> can make, and four kinds of call to count.\<close>

fun remediation :: "effect \<Rightarrow> bool" where
  "remediation (Recorder_Publish ev n nc) = True"
| "remediation (Metric_actionsPerformed_Inc a) = True"
| "remediation (Cache_MarkUnavailable k t z ct) = True"
| "remediation (Kube_Create nc r) = True"
| "remediation (Kube_Delete nc r) = True"
| "remediation (Metric_NodeClaimsTerminated_Inc p ct) = True"
| "remediation (Log_Errorf s e) = True"
| "remediation (Log_Infof s) = True"
| "remediation x = False"

fun isMarkUnavailable :: "effect \<Rightarrow> bool" where
  "isMarkUnavailable (Cache_MarkUnavailable k t z ct) = True"
| "isMarkUnavailable x = False"

fun isCreate :: "effect \<Rightarrow> bool" where
  "isCreate (Kube_Create nc r) = True"
| "isCreate x = False"

fun isDelete :: "effect \<Rightarrow> bool" where
  "isDelete (Kube_Delete nc r) = True"
| "isDelete x = False"

fun isQueueDelete :: "effect \<Rightarrow> bool" where
  "isQueueDelete (SQS_DeleteSQSMessage m r) = True"
| "isQueueDelete x = False"

fun isLatency :: "effect \<Rightarrow> bool" where
  "isLatency (Metric_messageLatency_Observe d) = True"
| "isLatency x = False"

fun isTerminated :: "effect \<Rightarrow> bool" where
  "isTerminated (Metric_NodeClaimsTerminated_Inc p ct) = True"
| "isTerminated x = False"

subsection \<open>A cluster of one NodeClaim and a queue of one message\<close>

text \<open>
  The values the theorems are run on: a NodeClaim of instance \<open>i-123\<close>, the same
  NodeClaim under deletion, and a queue holding one message whose body the parser reads as
  a spot interruption of \<open>i-123\<close>, a spot interruption of an instance the cluster
  does not hold, a message that is no operation, a spot interruption whose start time
  is the zero time, or not at all.
\<close>

definition exClaim :: NodeClaim where
  "exClaim =
     \<lparr> Name = ''default-abcde'',
       GenerateName = ''default-'',
       Annotations = [(''karpenter.sh/managed-by'', ''test'')],
       Labels = [(''topology.kubernetes.io/zone'', ''us-east-1a''),
                 (''node.kubernetes.io/instance-type'', ''m5.large''),
                 (''karpenter.sh/nodepool'', ''default''),
                 (''karpenter.sh/capacity-type'', ''spot'')],
       OwnerReferences = [''NodePool/default''],
       DeletionTimestamp = None,
       Spec = ''spec'',
       Status = \<lparr> ProviderID = ''aws:///us-east-1a/i-123'', ImageID = ''ami-1'' \<rparr> \<rparr>"

definition exDeleting :: NodeClaim where
  "exDeleting = exClaim \<lparr> DeletionTimestamp := Some 50 \<rparr>"

definition exSpot :: Message where
  "exSpot = \<lparr> Kind = SpotInterruptionKind, EC2InstanceIDs = [''i-123''], StartTime = 100,
              DetailState = [] \<rparr>"

definition exOther :: Message where
  "exOther = \<lparr> Kind = SpotInterruptionKind, EC2InstanceIDs = [''i-999''], StartTime = 100,
               DetailState = [] \<rparr>"

definition exNoOp :: Message where
  "exNoOp = \<lparr> Kind = NoOpKind, EC2InstanceIDs = [], StartTime = 100, DetailState = [] \<rparr>"

definition exZero :: Message where
  "exZero = \<lparr> Kind = SpotInterruptionKind, EC2InstanceIDs = [''i-999''], StartTime = 0,
              DetailState = [] \<rparr>"

definition exParse :: "string \<Rightarrow> error + Message" where
  "exParse body =
     (if body = ''spot'' then Inr exSpot
      else if body = ''other'' then Inr exOther
      else if body = ''noop'' then Inr exNoOp
      else if body = ''zero'' then Inr exZero
      else Inl (ErrorString ''unexpected end of JSON input''))"

definition exParseInstanceID :: "string \<Rightarrow> error + string" where
  "exParseInstanceID providerID =
     (if providerID = ''aws:///us-east-1a/i-123'' then Inr ''i-123''
      else Inl (ErrorString ''parsing instance id''))"

definition exRaw :: "string \<Rightarrow> raw" where
  "exRaw body = Some \<lparr> MessageId = Some ''m-1'', ReceiptHandle = Some ''rh-1'', Body = Some body \<rparr>"

text \<open>
  The collaborators: the queue holds the message of body \<open>body\<close>, the cluster lists
  \<open>claims\<close>, and the delete of a NodeClaim and the delete of a queue message answer
  \<open>kubeDelete\<close> and \<open>queueDelete\<close>.
\<close>

definition exEnv :: "string \<Rightarrow> NodeClaim list \<Rightarrow> error option \<Rightarrow> error option \<Rightarrow> env" where
  "exEnv body claims kubeDelete queueDelete =
     \<lparr> GetSQSMessages = (\<lambda>h. Inr [exRaw body]),
       DeleteSQSMessage = (\<lambda>h m. queueDelete),
       ListNodeClaims = (\<lambda>h. Inr claims),
       ListNodes = (\<lambda>h. Inr []),
       Create = (\<lambda>h nc. Some (OtherStatus ''AlreadyExists'')),
       Delete = (\<lambda>h nc. kubeDelete),
       Parse = exParse,
       ParseInstanceID = exParseInstanceID,
       Now = (\<lambda>h. 160) \<rparr>"

text \<open>The index of NodeClaims \<open>makeNodeClaimInstanceIDMap\<close> builds of \<open>[exClaim]\<close>.\<close>

definition exIndex :: "string \<rightharpoonup> NodeClaim" where
  "exIndex = [''i-123'' \<mapsto> exClaim]"

text \<open>
  The calls of \<open>Reconcile\<close> before the pieces, on the queue of the message of body
  \<open>body\<close> and the cluster of \<open>exClaim\<close>.
\<close>

definition exStart :: "string \<Rightarrow> history" where
  "exStart body =
     [SQS_GetSQSMessages (Inr [exRaw body]), Kube_ListNodeClaims (Inr [exClaim]),
      Kube_ListNodes (Inr [])]"

section \<open>Properties\<close>

subsection \<open>Combined errors\<close>

lemma fromSlice_None: "fromSlice es = None \<longleftrightarrow> es = []"
  by (cases es rule: fromSlice.cases) simp_all

lemma nonNil_Nil: "nonNil errs = [] \<longleftrightarrow> (\<forall>e \<in> set errs. e = None)"
  by (induction errs rule: nonNil.induct) simp_all

lemma nonNil_mem: "e \<in> set (nonNil errs) \<longleftrightarrow> Some e \<in> set errs"
  by (induction errs rule: nonNil.induct) auto

lemma Combine_None: "Combine errs = None \<longleftrightarrow> (\<forall>e \<in> set errs. e = None)"
  by (simp add: Combine_def fromSlice_None nonNil_Nil)

lemma fromSlice_Errors: "fromSlice es = Some agg \<Longrightarrow> Errors agg = concat (map Errors es)"
  by (cases es rule: fromSlice.cases) auto

lemma Combine_Errors:
  "Combine errs = Some agg \<Longrightarrow> Errors agg = concat (map Errors (nonNil errs))"
  by (simp add: Combine_def fromSlice_Errors)

lemma Append_Some: "Append err (Some e) \<noteq> None"
  by (cases err) (simp_all add: Append_def)

lemma IsNotFound_Errorf: "IsNotFound (Errorf s e) = IsNotFound e"
  by (simp add: IsNotFound_def)

subsection \<open>The pieces of a run\<close>

lemma ParallelizeUntil_length: "length (ParallelizeUntil c m n h raws) = length raws"
  by (induction raws arbitrary: h) (simp_all add: Let_def)

lemma ParallelizeUntil_nth:
  "i < length raws \<Longrightarrow>
   ParallelizeUntil c m n h raws ! i = doWorkPiece c m n (pieceHistory c m n h raws i) (raws ! i)"
proof (induction raws arbitrary: h i)
  case Nil
  then show ?case by simp
next
  case (Cons r rs)
  show ?case
  proof (cases i)
    case 0
    then show ?thesis by (simp add: pieceHistory_def Let_def)
  next
    case (Suc j)
    with Cons.prems have "j < length rs" by simp
    from Cons.IH [OF this] Suc show ?thesis
      by (simp add: pieceHistory_def Let_def)
  qed
qed

subsection \<open>The calls of the handlers\<close>

lemma notifyForMessage_remediation: "x \<in> set (notifyForMessage msg nc node) \<Longrightarrow> remediation x"
  by (cases "Kind msg") (auto simp: notifyForMessage_def split: if_splits)

lemma notifyForMessage_not_delete: "x \<in> set (notifyForMessage msg nc node) \<Longrightarrow> \<not> isDelete x"
  by (cases "Kind msg") (auto simp: notifyForMessage_def split: if_splits)

lemma spotInterruption_remediation: "x \<in> set (spotInterruption c h msg nc) \<Longrightarrow> remediation x"
  by (auto simp: spotInterruption_def createNodeClaim_def Let_def split: if_splits option.splits)

lemma spotInterruption_not_delete: "x \<in> set (spotInterruption c h msg nc) \<Longrightarrow> \<not> isDelete x"
  by (auto simp: spotInterruption_def createNodeClaim_def Let_def split: if_splits option.splits)

lemma deleteNodeClaim_remediation: "x \<in> set (snd (deleteNodeClaim c h nc node)) \<Longrightarrow> remediation x"
  by (auto simp: deleteNodeClaim_def split: if_splits option.splits)

lemma deleteNodeClaim_failed:
  assumes "Kube_Delete nc' (Some e) \<in> set (snd (deleteNodeClaim c h nc node))"
    and "\<not> IsNotFound e"
  shows "fst (deleteNodeClaim c h nc node) \<noteq> None"
  using assms
  by (auto simp: deleteNodeClaim_def IgnoreNotFound_def IsNotFound_Errorf
      split: if_splits option.splits)

lemma handleNodeClaim_remediation:
  "x \<in> set (snd (handleNodeClaim c h msg nc node)) \<Longrightarrow> remediation x"
  by (auto simp: handleNodeClaim_def Let_def split: if_splits
      dest: notifyForMessage_remediation spotInterruption_remediation deleteNodeClaim_remediation)

lemma handleNodeClaim_failed:
  assumes "Kube_Delete nc' (Some e) \<in> set (snd (handleNodeClaim c h msg nc node))"
    and "\<not> IsNotFound e"
  shows "fst (handleNodeClaim c h msg nc node) \<noteq> None"
proof -
  have nd: "\<not> isDelete x" if "x \<in> set (notifyForMessage msg nc node)" for x
    using that by (rule notifyForMessage_not_delete)
  have sd: "\<not> isDelete x" if "x \<in> set (spotInterruption c h' msg nc)" for x h'
    using that by (rule spotInterruption_not_delete)
  from assms(1) show ?thesis
    using nd [of "Kube_Delete nc' (Some e)"] sd [of "Kube_Delete nc' (Some e)"] assms(2)
    by (auto simp: handleNodeClaim_def Let_def split: if_splits dest: deleteNodeClaim_failed)
qed

lemma handleInstances_remediation:
  "x \<in> set (snd (handleInstances c m n h msg ids err)) \<Longrightarrow> remediation x"
proof (induction ids arbitrary: h err)
  case Nil
  then show ?case by simp
next
  case (Cons i ids)
  then show ?case
    by (auto simp: Let_def split: option.splits dest: handleNodeClaim_remediation)
qed

lemma handleInstances_no_match:
  "\<forall>i \<in> set ids. m i = None \<Longrightarrow> handleInstances c m n h msg ids err = (err, [])"
  by (induction ids) simp_all

lemma handleInstances_keeps_error:
  "err \<noteq> None \<Longrightarrow> fst (handleInstances c m n h msg ids err) \<noteq> None"
proof (induction ids arbitrary: h err)
  case Nil
  then show ?case by simp
next
  case (Cons i ids)
  show ?case
  proof (cases "m i")
    case None
    with Cons show ?thesis by simp
  next
    case (Some nc)
    show ?thesis
    proof (cases "fst (handleNodeClaim c h msg nc (n i))")
      case None
      with Some Cons show ?thesis by (simp add: Let_def)
    next
      case (Some e)
      with \<open>m i = Some nc\<close> Cons.IH [OF Append_Some] show ?thesis by (simp add: Let_def)
    qed
  qed
qed

lemma handleInstances_failed:
  assumes "Kube_Delete nc (Some e) \<in> set (snd (handleInstances c m n h msg ids err))"
    and "\<not> IsNotFound e"
  shows "fst (handleInstances c m n h msg ids err) \<noteq> None"
  using assms(1)
proof (induction ids arbitrary: h err)
  case Nil
  then show ?case by simp
next
  case (Cons i ids)
  show ?case
  proof (cases "m i")
    case None
    with Cons show ?thesis by simp
  next
    case (Some nc')
    let ?r = "handleNodeClaim c h msg nc' (n i)"
    let ?err = "case fst ?r of Some e \<Rightarrow> Append err (Some e) | None \<Rightarrow> err"
    from Cons.prems Some
    consider "Kube_Delete nc (Some e) \<in> set (snd ?r)"
      | "Kube_Delete nc (Some e) \<in> set (snd (handleInstances c m n (h @ snd ?r) msg ids ?err))"
      by (auto simp: Let_def)
    then show ?thesis
    proof cases
      case 1
      from handleNodeClaim_failed [OF 1 assms(2)] obtain e' where "fst ?r = Some e'" by auto
      then have "?err \<noteq> None" by (simp add: Append_Some)
      from handleInstances_keeps_error [OF this] Some show ?thesis by (simp add: Let_def)
    next
      case 2
      from Cons.IH [OF 2] Some show ?thesis by (simp add: Let_def)
    qed
  qed
qed

lemma handleMessage_failed:
  assumes "Kube_Delete nc (Some e) \<in> set (snd (handleMessage c m n h msg))"
    and "\<not> IsNotFound e"
  shows "fst (handleMessage c m n h msg) \<noteq> None"
proof (cases "Kind msg = NoOpKind")
  case True
  with assms(1) show ?thesis by (simp add: handleMessage_def)
next
  case False
  let ?r = "handleInstances c m n (h @ [Metric_receivedMessages_Inc (Kind msg)]) msg (EC2InstanceIDs msg) None"
  from assms(1) False have "Kube_Delete nc (Some e) \<in> set (snd ?r)"
    by (auto simp: handleMessage_def Let_def split: option.splits)
  from handleInstances_failed [OF this assms(2)] False show ?thesis
    by (auto simp: handleMessage_def Let_def split: option.splits)
qed

lemma handleMessage_effects:
  assumes "x \<in> set (snd (handleMessage c m n h msg))"
  shows "remediation x \<or> x = Metric_receivedMessages_Inc (Kind msg) \<or> isLatency x"
  using assms
  by (auto simp: handleMessage_def Let_def split: if_splits option.splits
      dest: handleInstances_remediation)

lemma remediation_kinds:
  "remediation x \<Longrightarrow> \<not> isLatency x \<and> \<not> isQueueDelete x \<and> x \<noteq> Metric_deletedMessages_Inc"
  by (cases x) simp_all

lemma filter_none: "(\<And>x. x \<in> set xs \<Longrightarrow> \<not> P x) \<Longrightarrow> filter P xs = []"
  by (induction xs) simp_all

lemma handleInstances_no_latency:
  "filter isLatency (snd (handleInstances c m n h msg ids err)) = []"
  by (rule filter_none) (auto dest: handleInstances_remediation remediation_kinds)

lemma handleMessage_no_queue_delete:
  "filter isQueueDelete (snd (handleMessage c m n h msg)) = []"
  by (rule filter_none) (auto dest!: handleMessage_effects dest: remediation_kinds elim: isLatency.elims)

lemma handleMessage_no_deleted_count:
  "count_list (snd (handleMessage c m n h msg)) Metric_deletedMessages_Inc = 0"
  by (auto simp: count_list_0_iff dest!: handleMessage_effects dest: remediation_kinds)

lemma parseMessage_effects: "filter isQueueDelete (snd (parseMessage c raw)) = []
  \<and> count_list (snd (parseMessage c raw)) Metric_deletedMessages_Inc = 0
  \<and> filter isLatency (snd (parseMessage c raw)) = []"
  by (simp add: parseMessage_def split: option.splits sum.splits)

lemma Reconcile_fanOut:
  assumes "fanOut c h = Some (raws, m, n, h0)"
  shows "Reconcile c h =
           (Combine (map fst (ParallelizeUntil c m n h0 raws)),
            drop (length h) h0 @ concat (map snd (ParallelizeUntil c m n h0 raws)))"
  using assms
  by (auto simp: fanOut_def Reconcile_def Let_def split: sum.splits if_splits)

subsection \<open>Reconcile and its pieces\<close>

lemma pieceHistory_0: "pieceHistory c m n h raws 0 = h"
  by (simp add: pieceHistory_def)

lemma doWorkPiece_parse_failure:
  assumes "fst (parseMessage c raw) = Inl pe"
  shows "doWorkPiece c m n h raw =
           (case DeleteSQSMessage c (h @ snd (parseMessage c raw) @ [Log_Errorf ''parsing message'' pe]) raw of
              None \<Rightarrow> None
            | Some err \<Rightarrow> Some (Errorf ''deleting sqs message'' err),
            snd (parseMessage c raw) @
            [Log_Errorf ''parsing message'' pe,
             SQS_DeleteSQSMessage raw
               (DeleteSQSMessage c (h @ snd (parseMessage c raw) @ [Log_Errorf ''parsing message'' pe]) raw)] @
            (if DeleteSQSMessage c (h @ snd (parseMessage c raw) @ [Log_Errorf ''parsing message'' pe]) raw = None
             then [Metric_deletedMessages_Inc] else []))"
  using assms by (simp add: doWorkPiece_def deleteMessage_def Let_def split: option.splits)

lemma doWorkPiece_handle_failure:
  assumes "fst (parseMessage c raw) = Inr msg"
    and "fst (handleMessage c m n (h @ snd (parseMessage c raw)) msg) = Some e"
  shows "doWorkPiece c m n h raw =
           (Some (Errorf ''handling message'' e),
            snd (parseMessage c raw) @ snd (handleMessage c m n (h @ snd (parseMessage c raw)) msg))"
  using assms by (simp add: doWorkPiece_def Let_def)

lemma slot_in_Reconcile:
  assumes "fanOut c h = Some (raws, m, n, h0)" and "i < length raws"
    and "fst (ParallelizeUntil c m n h0 raws ! i) = Some e"
  shows "\<exists>agg. fst (Reconcile c h) = Some agg \<and> set (Errors e) \<subseteq> set (Errors agg)"
proof -
  let ?errs = "map fst (ParallelizeUntil c m n h0 raws)"
  from assms(2,3) have mem: "Some e \<in> set ?errs"
    by (metis ParallelizeUntil_length length_map nth_map nth_mem)
  then have "Combine ?errs \<noteq> None"
    unfolding Combine_None by (metis option.distinct(1))
  then obtain agg where agg: "Combine ?errs = Some agg" by auto
  from mem have "e \<in> set (nonNil ?errs)" by (simp add: nonNil_mem)
  then have "set (Errors e) \<subseteq> set (concat (map Errors (nonNil ?errs)))" by auto
  with Combine_Errors [OF agg] have "set (Errors e) \<subseteq> set (Errors agg)" by simp
  with agg Reconcile_fanOut [OF assms(1)] show ?thesis by simp
qed

lemma Sub_160_100: "Sub 160 100 = 60"
  by (simp add: Sub_def minDuration_def maxDuration_def)

lemma handleMessage_latency:
  "filter isLatency (snd (handleMessage c m n h msg)) =
     (if Kind msg = NoOpKind then []
      else [Metric_messageLatency_Observe
              (Sub (Now c (h @ butlast (snd (handleMessage c m n h msg)))) (StartTime msg))])"
  by (simp add: handleMessage_def Let_def handleInstances_no_latency butlast_append
      split: option.splits)

lemma handleMessage_not_Nil: "snd (handleMessage c m n h msg) \<noteq> []"
  by (simp add: handleMessage_def Let_def split: option.splits)

subsection \<open>Unfolding the model and the example\<close>

lemmas ex_defs = exEnv_def exClaim_def exDeleting_def exIndex_def exSpot_def exOther_def exNoOp_def
  exZero_def exParse_def exParseInstanceID_def exRaw_def

lemmas label_defs = index_def LabelTopologyZone_def LabelInstanceTypeStable_def
  NodePoolLabelKey_def CapacityTypeLabelKey_def CapacityTypeSpot_def

lemmas handler_defs = handleNodeClaim_def spotInterruption_def createNodeClaim_def
  newNodeClaim_def deleteNodeClaim_def notifyForMessage_def actionForMessage_def
  IgnoreNotFound_def IsNotFound_def
lemma deleteNodeClaim_no_mark_create:
  "filter isMarkUnavailable (snd (deleteNodeClaim c h nc node)) = []
   \<and> filter isCreate (snd (deleteNodeClaim c h nc node)) = []"
  by (simp add: deleteNodeClaim_def split: option.splits)

lemma ex_fanOut:
  "fanOut (exEnv body [exClaim] kd qd) [] = Some ([exRaw body], exIndex, Map.empty, exStart body)"
  by (simp add: fanOut_def makeNodeClaimInstanceIDMap_def makeNodeInstanceIDMap_def Let_def
      exEnv_def exRaw_def exStart_def exIndex_def exClaim_def exParseInstanceID_def)

lemma ex_parseMessage:
  "parseMessage (exEnv b cs kd qd) (exRaw body) =
     (case exParse body of
        Inl err \<Rightarrow> Inl (Errorf ''parsing sqs message'' err)
      | Inr msg \<Rightarrow> Inr msg,
      [Parser_Parse body])"
  by (simp add: parseMessage_def exEnv_def exRaw_def split: sum.splits)

lemma ex_handleNodeClaim_conflict:
  "handleNodeClaim (exEnv b cs (Some (OtherStatus ''Conflict'')) qd) h exSpot exClaim None =
     (Some (Errorf ''deleting the node on interruption message'' (OtherStatus ''Conflict'')),
      [Recorder_Publish SpotInterrupted None exClaim,
       Metric_actionsPerformed_Inc CordonAndDrain,
       Cache_MarkUnavailable SpotInterruptionKind ''m5.large'' ''us-east-1a'' ''spot'',
       Kube_Create (newNodeClaim exClaim) (Some (OtherStatus ''AlreadyExists'')),
       Log_Errorf ''[interruption handling]failed to create a new nodeclaim''
         (OtherStatus ''AlreadyExists''),
       Kube_Delete exClaim (Some (OtherStatus ''Conflict''))])"
  by (simp add: handleNodeClaim_def spotInterruption_def createNodeClaim_def
      deleteNodeClaim_def notifyForMessage_def actionForMessage_def IgnoreNotFound_def
      IsNotFound_def Let_def label_defs exEnv_def exSpot_def exClaim_def)

lemma ex_handleMessage_conflict:
  "handleMessage (exEnv b cs (Some (OtherStatus ''Conflict'')) qd) exIndex Map.empty h exSpot =
     (Some (Errorf ''acting on NodeClaims''
        (Errorf ''deleting the node on interruption message'' (OtherStatus ''Conflict''))),
      Metric_receivedMessages_Inc SpotInterruptionKind #
      snd (handleNodeClaim (exEnv b cs (Some (OtherStatus ''Conflict'')) qd)
             (h @ [Metric_receivedMessages_Inc SpotInterruptionKind]) exSpot exClaim None) @
      [Metric_messageLatency_Observe 60])"
proof -
  have k: "Kind exSpot = SpotInterruptionKind" "EC2InstanceIDs exSpot = [''i-123'']"
    "StartTime exSpot = 100"
    by (simp_all add: exSpot_def)
  have l: "exIndex ''i-123'' = Some exClaim"
    by (simp add: exIndex_def)
  have n: "Now (exEnv b cs (Some (OtherStatus ''Conflict'')) qd) = (\<lambda>h. 160)"
    by (simp add: exEnv_def)
  show ?thesis
    by (simp add: handleMessage_def k l n Let_def Append_def ex_handleNodeClaim_conflict
        Sub_160_100)
qed

lemma ex_Reconcile:
  "Reconcile (exEnv body [exClaim] kd qd) [] =
     (Combine [fst (doWorkPiece (exEnv body [exClaim] kd qd) exIndex Map.empty (exStart body)
                      (exRaw body))],
      exStart body @
      snd (doWorkPiece (exEnv body [exClaim] kd qd) exIndex Map.empty (exStart body) (exRaw body)))"
  using Reconcile_fanOut [OF ex_fanOut, of body kd qd] by simp

lemma ex_handleMessage_deleted:
  "handleMessage (exEnv b cs None qd) exIndex Map.empty h exSpot =
     (None,
      [Metric_receivedMessages_Inc SpotInterruptionKind,
       Recorder_Publish SpotInterrupted None exClaim,
       Metric_actionsPerformed_Inc CordonAndDrain,
       Cache_MarkUnavailable SpotInterruptionKind ''m5.large'' ''us-east-1a'' ''spot'',
       Kube_Create (newNodeClaim exClaim) (Some (OtherStatus ''AlreadyExists'')),
       Log_Errorf ''[interruption handling]failed to create a new nodeclaim''
         (OtherStatus ''AlreadyExists''),
       Kube_Delete exClaim None,
       Log_Infof ''initiating delete from interruption message'',
       Recorder_Publish TerminatingOnInterruption None exClaim,
       Metric_NodeClaimsTerminated_Inc ''default'' ''spot'',
       Metric_messageLatency_Observe 60])"
proof -
  have k: "Kind exSpot = SpotInterruptionKind" "EC2InstanceIDs exSpot = [''i-123'']"
    "StartTime exSpot = 100"
    by (simp_all add: exSpot_def)
  have l: "exIndex ''i-123'' = Some exClaim"
    by (simp add: exIndex_def)
  have n: "Now (exEnv b cs None qd) = (\<lambda>h. 160)"
    by (simp add: exEnv_def)
  have nc: "handleNodeClaim (exEnv b cs None qd) h' exSpot exClaim None =
     (None,
      [Recorder_Publish SpotInterrupted None exClaim,
       Metric_actionsPerformed_Inc CordonAndDrain,
       Cache_MarkUnavailable SpotInterruptionKind ''m5.large'' ''us-east-1a'' ''spot'',
       Kube_Create (newNodeClaim exClaim) (Some (OtherStatus ''AlreadyExists'')),
       Log_Errorf ''[interruption handling]failed to create a new nodeclaim''
         (OtherStatus ''AlreadyExists''),
       Kube_Delete exClaim None,
       Log_Infof ''initiating delete from interruption message'',
       Recorder_Publish TerminatingOnInterruption None exClaim,
       Metric_NodeClaimsTerminated_Inc ''default'' ''spot''])" for h'
    by (simp add: handleNodeClaim_def spotInterruption_def createNodeClaim_def
        deleteNodeClaim_def notifyForMessage_def actionForMessage_def Let_def
        label_defs exEnv_def exSpot_def exClaim_def)
  show ?thesis
    by (simp add: handleMessage_def k l n nc Let_def Sub_160_100)
qed

section \<open>The claims\<close>

subsection \<open>The action of a message\<close>

text \<open>
  C7. \<open>actionForMessage\<close> is a function of the kind of the message alone, with a
  value for every message and nothing but a value: it is \<open>CordonAndDrain\<close> exactly
  for the kinds ScheduledChange, SpotInterruption and StateChange, and \<open>NoAction\<close>
  exactly for the kinds RebalanceRecommendation and NoOp and for every unknown kind.
\<close>

theorem actionForMessage_table:
  "(actionForMessage msg = CordonAndDrain) =
     (Kind msg = ScheduledChangeKind \<or> Kind msg = SpotInterruptionKind \<or> Kind msg = StateChangeKind)
   \<and> (actionForMessage msg = NoAction) =
     (Kind msg = RebalanceRecommendationKind \<or> Kind msg = NoOpKind \<or> (\<exists>s. Kind msg = UnknownKind s))"
  by (cases "Kind msg") (simp_all add: actionForMessage_def)

subsection \<open>Deleting a NodeClaim\<close>

text \<open>
  C3. \<open>deleteNodeClaim\<close> on a NodeClaim whose deletion timestamp is set (not zero)
  returns no error and makes no call: no delete, no notification, no count. Otherwise
  it calls the delete once; it returns no error when the delete answers nil or a
  not-found error, and the wrapped error for any other answer; and the three calls that
  follow a delete (the log line, the terminating-on-interruption notification, the
  termination counter) are made exactly when the delete answers nil. So a second run,
  on the NodeClaim with its deletion timestamp set, returns no error, and the two runs
  together count at most one termination.
\<close>

theorem deleteNodeClaim_idempotent:
  fixes c :: env
  defines "terminating \<equiv> (\<lambda>node nc.
     [Log_Infof ''initiating delete from interruption message'',
      Recorder_Publish TerminatingOnInterruption node nc,
      Metric_NodeClaimsTerminated_Inc
                 (index (Labels nc) NodePoolLabelKey) (index (Labels nc) CapacityTypeLabelKey)])"
  shows
  "(\<not> IsZero (DeletionTimestamp nc) \<longrightarrow> deleteNodeClaim c h nc node = (None, []))
   \<and> (IsZero (DeletionTimestamp nc) \<longrightarrow>
        fst (deleteNodeClaim c h nc node) =
          (case Delete c h nc of
             None \<Rightarrow> None
           | Some err \<Rightarrow>
               if IsNotFound err then None
               else Some (Errorf ''deleting the node on interruption message'' err))
        \<and> snd (deleteNodeClaim c h nc node) =
          Kube_Delete nc (Delete c h nc) #
            (if Delete c h nc = None then terminating node nc else []))
   \<and> (\<forall>h' t. t \<noteq> 0 \<longrightarrow>
        deleteNodeClaim c h' (nc \<lparr> DeletionTimestamp := Some t \<rparr>) node = (None, [])
        \<and> length (filter isTerminated
             (snd (deleteNodeClaim c h nc node) @
              snd (deleteNodeClaim c h' (nc \<lparr> DeletionTimestamp := Some t \<rparr>) node))) \<le> 1)"
  by (auto simp: deleteNodeClaim_def IgnoreNotFound_def IsNotFound_Errorf terminating_def
      split: option.splits)

theorem deleteNodeClaim_idempotent_witness:
  "IsZero (DeletionTimestamp exClaim)
   \<and> deleteNodeClaim (exEnv ''spot'' [exClaim] None None) [] exClaim None =
       (None,
        [Kube_Delete exClaim None,
         Log_Infof ''initiating delete from interruption message'',
         Recorder_Publish TerminatingOnInterruption None exClaim,
         Metric_NodeClaimsTerminated_Inc ''default'' ''spot''])
   \<and> exClaim \<lparr> DeletionTimestamp := Some 50 \<rparr> = exDeleting
   \<and> \<not> IsZero (DeletionTimestamp exDeleting)
   \<and> deleteNodeClaim (exEnv ''spot'' [exClaim] None None)
        (snd (deleteNodeClaim (exEnv ''spot'' [exClaim] None None) [] exClaim None))
        exDeleting None = (None, [])"
  using deleteNodeClaim_idempotent [of exClaim "exEnv ''spot'' [exClaim] None None" "[]" None]
    deleteNodeClaim_idempotent [of exDeleting "exEnv ''spot'' [exClaim] None None" _ None]
  by (simp add: deleteNodeClaim_def ex_defs label_defs)

subsection \<open>A spot interruption\<close>

text \<open>
  C2. For a message of kind SpotInterruption and any NodeClaim, \<open>handleNodeClaim\<close>
  makes, in this order: the notification and the action counter; one mark of the
  offering as unavailable, with the instance type and zone labels of the NodeClaim,
  capacity type spot and the kind of the message as reason, when both labels are
  non-empty, and none otherwise; one create, of an object holding the generate-name,
  annotations, labels, owner references and spec of the NodeClaim, with no name, no
  deletion timestamp and an empty status; a log line when the create answers an error.
  It then runs \<open>deleteNodeClaim\<close>, which neither marks nor creates, and returns the
  error of \<open>deleteNodeClaim\<close>: the error of the create is not returned.
\<close>

theorem handleNodeClaim_spot_interruption:
  fixes c :: env and h :: history and msg :: Message and nc :: NodeClaim
    and node :: "Node option"
  assumes "Kind msg = SpotInterruptionKind"
  defines "zone \<equiv> index (Labels nc) LabelTopologyZone"
    and "instanceType \<equiv> index (Labels nc) LabelInstanceTypeStable"
  defines "mark \<equiv> (if zone \<noteq> [] \<and> instanceType \<noteq> []
                    then [Cache_MarkUnavailable (Kind msg) instanceType zone ''spot''] else [])"
    and "replacement \<equiv>
           \<lparr> Name = [], GenerateName = GenerateName nc, Annotations = Annotations nc,
             Labels = Labels nc, OwnerReferences = OwnerReferences nc,
             DeletionTimestamp = None, Spec = Spec nc,
             Status = \<lparr> ProviderID = [], ImageID = [] \<rparr> \<rparr>"
    and "notified \<equiv> [Recorder_Publish SpotInterrupted node nc,
                       Metric_actionsPerformed_Inc CordonAndDrain]"
  defines "created \<equiv> Create c (h @ notified @ mark) replacement"
  defines "before \<equiv> notified @ mark @ [Kube_Create replacement created] @
             (case created of
                Some err \<Rightarrow>
                  [Log_Errorf ''[interruption handling]failed to create a new nodeclaim'' err]
              | None \<Rightarrow> [])"
  shows "snd (handleNodeClaim c h msg nc node) =
           before @ snd (deleteNodeClaim c (h @ before) nc node)
         \<and> fst (handleNodeClaim c h msg nc node) = fst (deleteNodeClaim c (h @ before) nc node)
         \<and> filter isMarkUnavailable (snd (handleNodeClaim c h msg nc node)) = mark
         \<and> filter isCreate (snd (handleNodeClaim c h msg nc node)) =
             [Kube_Create replacement created]"
proof -
  have a: "actionForMessage msg = CordonAndDrain"
    using assms(1) by (simp add: actionForMessage_def)
  have n: "notifyForMessage msg nc node = [Recorder_Publish SpotInterrupted node nc]"
    using assms(1) by (simp add: notifyForMessage_def)
  have s: "spotInterruption c (h @ notified) msg nc = drop 2 before"
    by (simp add: spotInterruption_def createNodeClaim_def newNodeClaim_def Let_def
        before_def created_def replacement_def mark_def zone_def instanceType_def
        notified_def CapacityTypeSpot_def)
  have b: "before = notified @ drop 2 before"
    by (simp add: before_def notified_def)
  have r: "handleNodeClaim c h msg nc node =
             (fst (deleteNodeClaim c (h @ before) nc node),
              before @ snd (deleteNodeClaim c (h @ before) nc node))"
    using a n s assms(1) b
    by (simp add: handleNodeClaim_def Let_def notified_def)
  have fm: "filter isMarkUnavailable before = mark"
    by (simp add: before_def notified_def mark_def split: option.splits)
  have fc: "filter isCreate before = [Kube_Create replacement created]"
    by (simp add: before_def notified_def mark_def split: option.splits)
  show ?thesis
    using r fm fc deleteNodeClaim_no_mark_create [of c "h @ before" nc node] by simp
qed

theorem handleNodeClaim_spot_interruption_witness:
  "Kind exSpot = SpotInterruptionKind
   \<and> filter isMarkUnavailable
        (snd (handleNodeClaim (exEnv ''spot'' [exClaim] None None) [] exSpot exClaim None)) =
       [Cache_MarkUnavailable SpotInterruptionKind ''m5.large'' ''us-east-1a'' ''spot'']
   \<and> filter isCreate
        (snd (handleNodeClaim (exEnv ''spot'' [exClaim] None None) [] exSpot exClaim None)) =
       [Kube_Create
          (exClaim \<lparr> Name := [], DeletionTimestamp := None,
                     Status := \<lparr> ProviderID = [], ImageID = [] \<rparr> \<rparr>)
          (Some (OtherStatus ''AlreadyExists''))]
   \<and> fst (handleNodeClaim (exEnv ''spot'' [exClaim] None None) [] exSpot exClaim None) = None
   \<and> filter isMarkUnavailable
        (snd (handleNodeClaim (exEnv ''spot'' [exClaim] None None) [] exSpot
                (exClaim \<lparr> Labels := [(''topology.kubernetes.io/zone'', ''us-east-1a'')] \<rparr>)
                None)) = []"
proof -
  have k: "Kind exSpot = SpotInterruptionKind"
    by (simp add: exSpot_def)
  note T = handleNodeClaim_spot_interruption
             [OF k, of "exEnv ''spot'' [exClaim] None None" "[]" exClaim None]
  note U = handleNodeClaim_spot_interruption
             [OF k, of "exEnv ''spot'' [exClaim] None None" "[]"
                "exClaim \<lparr> Labels := [(''topology.kubernetes.io/zone'', ''us-east-1a'')] \<rparr>" None]
  have u: "filter isMarkUnavailable
        (snd (handleNodeClaim (exEnv ''spot'' [exClaim] None None) [] exSpot
                (exClaim \<lparr> Labels := [(''topology.kubernetes.io/zone'', ''us-east-1a'')] \<rparr>)
                None)) = []"
    using U [THEN conjunct2, THEN conjunct2, THEN conjunct1]
    by (simp add: label_defs)
  have m: "filter isMarkUnavailable
        (snd (handleNodeClaim (exEnv ''spot'' [exClaim] None None) [] exSpot exClaim None)) =
       [Cache_MarkUnavailable SpotInterruptionKind ''m5.large'' ''us-east-1a'' ''spot'']"
    using T [THEN conjunct2, THEN conjunct2, THEN conjunct1]
    by (simp add: k label_defs exClaim_def)
  have cr: "filter isCreate
        (snd (handleNodeClaim (exEnv ''spot'' [exClaim] None None) [] exSpot exClaim None)) =
       [Kube_Create
          (exClaim \<lparr> Name := [], DeletionTimestamp := None,
                     Status := \<lparr> ProviderID = [], ImageID = [] \<rparr> \<rparr>)
          (Some (OtherStatus ''AlreadyExists''))]"
    using T [THEN conjunct2, THEN conjunct2, THEN conjunct2]
    by (simp add: exClaim_def exEnv_def)
  have e: "fst (handleNodeClaim (exEnv ''spot'' [exClaim] None None) [] exSpot exClaim None) = None"
    using T [THEN conjunct2, THEN conjunct1]
    by (simp add: deleteNodeClaim_def exClaim_def exEnv_def)
  from k m cr e u show ?thesis by simp
qed

text \<open>
  C10. For a message of kind SpotInterruption and a NodeClaim whose deletion timestamp is
  set, \<open>handleNodeClaim\<close> still publishes the notification, counts the action, marks
  the offering unavailable (when both labels are non-empty) and creates the replacement;
  it then returns no error without a delete call.
\<close>

theorem handleNodeClaim_spot_deleting:
  fixes c :: env and h :: history and msg :: Message and nc :: NodeClaim
    and node :: "Node option"
  assumes "Kind msg = SpotInterruptionKind" and "\<not> IsZero (DeletionTimestamp nc)"
  defines "zone \<equiv> index (Labels nc) LabelTopologyZone"
    and "instanceType \<equiv> index (Labels nc) LabelInstanceTypeStable"
  defines "mark \<equiv> (if zone \<noteq> [] \<and> instanceType \<noteq> []
                    then [Cache_MarkUnavailable (Kind msg) instanceType zone ''spot''] else [])"
    and "notified \<equiv> [Recorder_Publish SpotInterrupted node nc,
                       Metric_actionsPerformed_Inc CordonAndDrain]"
  defines "created \<equiv> Create c (h @ notified @ mark) (newNodeClaim nc)"
  shows "handleNodeClaim c h msg nc node =
           (None,
            notified @ mark @ [Kube_Create (newNodeClaim nc) created] @
              (case created of
                 Some err \<Rightarrow>
                   [Log_Errorf ''[interruption handling]failed to create a new nodeclaim'' err]
               | None \<Rightarrow> []))
         \<and> filter isDelete (snd (handleNodeClaim c h msg nc node)) = []"
  using assms(1,2)
  by (simp add: handleNodeClaim_def spotInterruption_def createNodeClaim_def
      deleteNodeClaim_def notifyForMessage_def actionForMessage_def Let_def
      created_def notified_def mark_def zone_def instanceType_def CapacityTypeSpot_def
      split: option.splits)

theorem handleNodeClaim_spot_deleting_witness:
  "Kind exSpot = SpotInterruptionKind \<and> \<not> IsZero (DeletionTimestamp exDeleting)
   \<and> handleNodeClaim (exEnv ''spot'' [exDeleting] None None) [] exSpot exDeleting None =
       (None,
        [Recorder_Publish SpotInterrupted None exDeleting,
         Metric_actionsPerformed_Inc CordonAndDrain,
         Cache_MarkUnavailable SpotInterruptionKind ''m5.large'' ''us-east-1a'' ''spot'',
         Kube_Create (newNodeClaim exDeleting) (Some (OtherStatus ''AlreadyExists'')),
         Log_Errorf ''[interruption handling]failed to create a new nodeclaim''
           (OtherStatus ''AlreadyExists'')])"
  using handleNodeClaim_spot_deleting
          [of exSpot exDeleting "exEnv ''spot'' [exDeleting] None None" "[]" None]
  by (simp add: ex_defs label_defs)

subsection \<open>A message of an instance the cluster does not hold\<close>

text \<open>
  C8. For a message that parses and none of whose instance ids is in the index of
  NodeClaims, \<open>handleMessage\<close> returns no error and calls nothing but the metrics
  (the received counter, and the latency unless the kind is NoOp): no notification, no
  mark in the cache, no create or delete of a NodeClaim. The piece then calls the delete
  of the message on the queue.
\<close>

theorem handleMessage_correlation_miss:
  fixes c :: env and h :: history and msg :: Message and r :: SQSMessage and body :: string
    and m :: "string \<rightharpoonup> NodeClaim" and n :: "string \<rightharpoonup> Node"
  assumes "Body r = Some body" and "Parse c body = Inr msg"
    and "\<forall>i \<in> set (EC2InstanceIDs msg). m i = None"
  defines "eh \<equiv> Metric_receivedMessages_Inc (Kind msg) #
             (if Kind msg = NoOpKind then []
              else [Metric_messageLatency_Observe
                      (Sub (Now c (h @ [Parser_Parse body, Metric_receivedMessages_Inc (Kind msg)]))
                         (StartTime msg))])"
  defines "d \<equiv> DeleteSQSMessage c (h @ Parser_Parse body # eh) (Some r)"
  shows "handleMessage c m n (h @ [Parser_Parse body]) msg = (None, eh)
         \<and> doWorkPiece c m n h (Some r) =
             (case d of None \<Rightarrow> None | Some err \<Rightarrow> Some (Errorf ''deleting sqs message'' err),
              Parser_Parse body # eh @ SQS_DeleteSQSMessage (Some r) d #
                (if d = None then [Metric_deletedMessages_Inc] else []))
         \<and> filter remediation (snd (doWorkPiece c m n h (Some r))) = []"
proof -
  have p: "parseMessage c (Some r) = (Inr msg, [Parser_Parse body])"
    using assms(1,2) by (simp add: parseMessage_def)
  have hm: "handleMessage c m n (h @ [Parser_Parse body]) msg = (None, eh)"
    using assms(3) by (simp add: handleMessage_def handleInstances_no_match Let_def eh_def)
  have dw: "doWorkPiece c m n h (Some r) =
             (case d of None \<Rightarrow> None | Some err \<Rightarrow> Some (Errorf ''deleting sqs message'' err),
              Parser_Parse body # eh @ SQS_DeleteSQSMessage (Some r) d #
                (if d = None then [Metric_deletedMessages_Inc] else []))"
    using p hm by (simp add: doWorkPiece_def deleteMessage_def Let_def d_def split: option.splits)
  have "filter remediation (snd (doWorkPiece c m n h (Some r))) = []"
    unfolding dw by (simp add: eh_def)
  with hm dw show ?thesis by simp
qed

theorem handleMessage_correlation_miss_witness:
  "Body \<lparr> MessageId = Some ''m-1'', ReceiptHandle = Some ''rh-1'', Body = Some ''other'' \<rparr>
     = Some ''other''
   \<and> Parse (exEnv ''other'' [exClaim] None None) ''other'' = Inr exOther
   \<and> EC2InstanceIDs exOther = [''i-999''] \<and> exIndex ''i-999'' = None
   \<and> handleMessage (exEnv ''other'' [exClaim] None None) exIndex Map.empty
        [Parser_Parse ''other''] exOther =
       (None, [Metric_receivedMessages_Inc SpotInterruptionKind, Metric_messageLatency_Observe 60])
   \<and> doWorkPiece (exEnv ''other'' [exClaim] None None) exIndex Map.empty []
        (exRaw ''other'') =
       (None,
        [Parser_Parse ''other'', Metric_receivedMessages_Inc SpotInterruptionKind,
         Metric_messageLatency_Observe 60, SQS_DeleteSQSMessage (exRaw ''other'') None,
         Metric_deletedMessages_Inc])"
proof -
  let ?r = "\<lparr> MessageId = Some ''m-1'', ReceiptHandle = Some ''rh-1'', Body = Some ''other'' \<rparr>"
  let ?c = "exEnv ''other'' [exClaim] None None"
  have b: "Body ?r = Some ''other''" by simp
  have p: "Parse ?c ''other'' = Inr exOther" by (simp add: exEnv_def exParse_def)
  have i: "EC2InstanceIDs exOther = [''i-999'']" by (simp add: exOther_def)
  have l: "exIndex ''i-999'' = None" by (simp add: exIndex_def)
  have a: "\<forall>i \<in> set (EC2InstanceIDs exOther). exIndex i = None"
    by (simp add: i l)
  note T = handleMessage_correlation_miss [OF b p a, of Map.empty "[]"]
  have k: "Kind exOther = SpotInterruptionKind" "StartTime exOther = 100"
    by (simp_all add: exOther_def)
  have n: "Now ?c = (\<lambda>h. 160)" "DeleteSQSMessage ?c = (\<lambda>h m. None)"
    by (simp_all add: exEnv_def)
  from T have "handleMessage ?c exIndex Map.empty [Parser_Parse ''other''] exOther =
       (None, [Metric_receivedMessages_Inc SpotInterruptionKind, Metric_messageLatency_Observe 60])
     \<and> doWorkPiece ?c exIndex Map.empty [] (exRaw ''other'') =
       (None,
        [Parser_Parse ''other'', Metric_receivedMessages_Inc SpotInterruptionKind,
         Metric_messageLatency_Observe 60, SQS_DeleteSQSMessage (exRaw ''other'') None,
         Metric_deletedMessages_Inc])"
    by (simp add: k n exRaw_def Sub_160_100)
  with b p i l show ?thesis by simp
qed

subsection \<open>A message that was handled\<close>

text \<open>
  C5, as the code has it. For a message that parses and whose handling returns no error
  (with or without matched instance ids, of kind NoOp or not), the piece calls the delete
  of the message on the queue once, after the calls of the handling. The deleted counter
  is incremented once when that delete answers nil and not at all when it answers an
  error, which is then the error of the piece. The latency is observed once, as
  \<open>time.Since\<close> of the start time of the message (the clock read after all other
  calls of the handling, minus the start time, kept within the range of a Duration),
  for every kind but NoOp; for a message of kind NoOp no latency is observed.
\<close>

theorem doWorkPiece_handled_message:
  fixes c :: env and h :: history and raw :: raw and msg :: Message
    and m :: "string \<rightharpoonup> NodeClaim" and n :: "string \<rightharpoonup> Node"
  defines "handled \<equiv> snd (parseMessage c raw) @
                       snd (handleMessage c m n (h @ snd (parseMessage c raw)) msg)"
  defines "d \<equiv> DeleteSQSMessage c (h @ handled) raw"
  assumes "fst (parseMessage c raw) = Inr msg"
    and "fst (handleMessage c m n (h @ snd (parseMessage c raw)) msg) = None"
  shows "doWorkPiece c m n h raw =
           (case d of None \<Rightarrow> None | Some err \<Rightarrow> Some (Errorf ''deleting sqs message'' err),
            handled @ SQS_DeleteSQSMessage raw d #
              (if d = None then [Metric_deletedMessages_Inc] else []))
         \<and> filter isQueueDelete (snd (doWorkPiece c m n h raw)) = [SQS_DeleteSQSMessage raw d]
         \<and> count_list (snd (doWorkPiece c m n h raw)) Metric_deletedMessages_Inc =
             (if d = None then 1 else 0)
         \<and> filter isLatency (snd (doWorkPiece c m n h raw)) =
             (if Kind msg = NoOpKind then []
              else [Metric_messageLatency_Observe
                      (Sub (Now c (h @ butlast handled)) (StartTime msg))])"
proof -
  let ?p = "snd (parseMessage c raw)"
  let ?hm = "snd (handleMessage c m n (h @ ?p) msg)"
  have dw: "doWorkPiece c m n h raw =
           (case d of None \<Rightarrow> None | Some err \<Rightarrow> Some (Errorf ''deleting sqs message'' err),
            handled @ SQS_DeleteSQSMessage raw d #
              (if d = None then [Metric_deletedMessages_Inc] else []))"
    using assms(3,4)
    by (simp add: doWorkPiece_def deleteMessage_def Let_def d_def handled_def
        split: option.splits)
  have q: "filter isQueueDelete handled = []"
    by (simp add: handled_def parseMessage_effects handleMessage_no_queue_delete)
  have k: "count_list handled Metric_deletedMessages_Inc = 0"
    by (simp add: handled_def parseMessage_effects handleMessage_no_deleted_count)
  have b: "butlast handled = ?p @ butlast ?hm"
    by (simp add: handled_def butlast_append handleMessage_not_Nil)
  have l: "filter isLatency handled =
             (if Kind msg = NoOpKind then []
              else [Metric_messageLatency_Observe
                      (Sub (Now c (h @ butlast handled)) (StartTime msg))])"
    using handleMessage_latency [of c m n "h @ ?p" msg]
    by (simp add: b) (simp add: handled_def parseMessage_effects)
  show ?thesis
    unfolding dw using q k l by simp
qed

theorem doWorkPiece_handled_message_witness:
  "fst (parseMessage (exEnv ''spot'' [exClaim] None None) (exRaw ''spot'')) = Inr exSpot
   \<and> fst (handleMessage (exEnv ''spot'' [exClaim] None None) exIndex Map.empty
            (exStart ''spot'' @ [Parser_Parse ''spot'']) exSpot) = None
   \<and> Kind exSpot \<noteq> NoOpKind
   \<and> filter isQueueDelete
        (snd (doWorkPiece (exEnv ''spot'' [exClaim] None None) exIndex Map.empty
                (exStart ''spot'') (exRaw ''spot''))) =
       [SQS_DeleteSQSMessage (exRaw ''spot'') None]
   \<and> count_list
        (snd (doWorkPiece (exEnv ''spot'' [exClaim] None None) exIndex Map.empty
                (exStart ''spot'') (exRaw ''spot''))) Metric_deletedMessages_Inc = 1
   \<and> filter isLatency
        (snd (doWorkPiece (exEnv ''spot'' [exClaim] None None) exIndex Map.empty
                (exStart ''spot'') (exRaw ''spot''))) =
       [Metric_messageLatency_Observe 60]"
proof -
  let ?c = "exEnv ''spot'' [exClaim] None None"
  have ps: "parseMessage ?c (exRaw ''spot'') = (Inr exSpot, [Parser_Parse ''spot''])"
    by (simp add: ex_parseMessage exParse_def)
  then have p: "fst (parseMessage ?c (exRaw ''spot'')) = Inr exSpot" by simp
  have hm: "fst (handleMessage ?c exIndex Map.empty
                   (exStart ''spot'' @ snd (parseMessage ?c (exRaw ''spot''))) exSpot) = None"
    by (simp add: ex_handleMessage_deleted)
  have hm': "fst (handleMessage ?c exIndex Map.empty (exStart ''spot'' @ [Parser_Parse ''spot''])
                   exSpot) = None"
    by (simp add: ex_handleMessage_deleted)
  have k: "Kind exSpot \<noteq> NoOpKind" "StartTime exSpot = 100" by (simp_all add: exSpot_def)
  have q: "DeleteSQSMessage ?c = (\<lambda>h m. None)" "Now ?c = (\<lambda>h. 160)"
    by (simp_all add: exEnv_def)
  note T = doWorkPiece_handled_message [OF p hm]
  from T [THEN conjunct2, THEN conjunct1] have a: "filter isQueueDelete
        (snd (doWorkPiece ?c exIndex Map.empty (exStart ''spot'') (exRaw ''spot''))) =
       [SQS_DeleteSQSMessage (exRaw ''spot'') None]"
    by (simp add: q)
  from T [THEN conjunct2, THEN conjunct2, THEN conjunct1] have b: "count_list
        (snd (doWorkPiece ?c exIndex Map.empty (exStart ''spot'') (exRaw ''spot'')))
        Metric_deletedMessages_Inc = 1"
    by (simp add: q)
  from T [THEN conjunct2, THEN conjunct2, THEN conjunct2] have l: "filter isLatency
        (snd (doWorkPiece ?c exIndex Map.empty (exStart ''spot'') (exRaw ''spot''))) =
       [Metric_messageLatency_Observe 60]"
    by (simp add: q k Sub_160_100)
  from p hm' k(1) a b l show ?thesis by simp
qed

text \<open>
  The claim as written fails on a message of kind NoOp, for which \<open>handleMessage\<close>
  returns before the latency is observed, and on a delete of the message that answers an
  error, after which the deleted counter is not incremented. And for a start time that
  is the zero time, the latency observed is the greatest Duration, not the clock minus
  the start time.
\<close>

theorem Reconcile_noop_counterexample:
  "fst (parseMessage (exEnv ''noop'' [exClaim] None None) (exRaw ''noop'')) = Inr exNoOp
   \<and> Kind exNoOp = NoOpKind
   \<and> fst (handleMessage (exEnv ''noop'' [exClaim] None None) exIndex Map.empty
            (exStart ''noop'' @ [Parser_Parse ''noop'']) exNoOp) = None
   \<and> Reconcile (exEnv ''noop'' [exClaim] None None) [] =
       (None,
        exStart ''noop'' @
        [Parser_Parse ''noop'', Metric_receivedMessages_Inc NoOpKind,
         SQS_DeleteSQSMessage (exRaw ''noop'') None, Metric_deletedMessages_Inc])
   \<and> filter isLatency (snd (Reconcile (exEnv ''noop'' [exClaim] None None) [])) = []
   \<and> fst (parseMessage (exEnv ''other'' [exClaim] None (Some (ErrorString ''throttled'')))
            (exRaw ''other'')) = Inr exOther
   \<and> fst (handleMessage (exEnv ''other'' [exClaim] None (Some (ErrorString ''throttled'')))
            exIndex Map.empty (exStart ''other'' @ [Parser_Parse ''other'']) exOther) = None
   \<and> Reconcile (exEnv ''other'' [exClaim] None (Some (ErrorString ''throttled''))) [] =
       (Some (Errorf ''deleting sqs message'' (ErrorString ''throttled'')),
        exStart ''other'' @
        [Parser_Parse ''other'', Metric_receivedMessages_Inc SpotInterruptionKind,
         Metric_messageLatency_Observe 60,
         SQS_DeleteSQSMessage (exRaw ''other'') (Some (ErrorString ''throttled''))])
   \<and> count_list (snd (Reconcile (exEnv ''other'' [exClaim] None (Some (ErrorString ''throttled''))) []))
        Metric_deletedMessages_Inc = 0
   \<and> fst (parseMessage
            ((exEnv ''zero'' [exClaim] None None) \<lparr> Now := (\<lambda>h. 63929157495209094855) \<rparr>)
            (exRaw ''zero'')) = Inr exZero
   \<and> Now ((exEnv ''zero'' [exClaim] None None) \<lparr> Now := (\<lambda>h. 63929157495209094855) \<rparr>)
        [Parser_Parse ''zero'', Metric_receivedMessages_Inc SpotInterruptionKind]
       - StartTime exZero = 63929157495209094855
   \<and> doWorkPiece
        ((exEnv ''zero'' [exClaim] None None) \<lparr> Now := (\<lambda>h. 63929157495209094855) \<rparr>)
        exIndex Map.empty [] (exRaw ''zero'') =
       (None,
        [Parser_Parse ''zero'', Metric_receivedMessages_Inc SpotInterruptionKind,
         Metric_messageLatency_Observe 9223372036854775807,
         SQS_DeleteSQSMessage (exRaw ''zero'') None, Metric_deletedMessages_Inc])"
proof -
  let ?c = "exEnv ''noop'' [exClaim] None None"
  let ?d = "exEnv ''other'' [exClaim] None (Some (ErrorString ''throttled''))"
  have p: "parseMessage ?c (exRaw ''noop'') = (Inr exNoOp, [Parser_Parse ''noop''])"
    by (simp add: ex_parseMessage exParse_def)
  have k: "Kind exNoOp = NoOpKind" by (simp add: exNoOp_def)
  have hm: "handleMessage ?c exIndex Map.empty h exNoOp =
              (None, [Metric_receivedMessages_Inc NoOpKind])" for h
    by (simp add: handleMessage_def k)
  have q: "DeleteSQSMessage ?c = (\<lambda>h m. None)" by (simp add: exEnv_def)
  have r: "Reconcile ?c [] =
       (None,
        exStart ''noop'' @
        [Parser_Parse ''noop'', Metric_receivedMessages_Inc NoOpKind,
         SQS_DeleteSQSMessage (exRaw ''noop'') None, Metric_deletedMessages_Inc])"
    by (simp add: ex_Reconcile doWorkPiece_def deleteMessage_def p hm q Combine_def)
  have l: "filter isLatency (snd (Reconcile ?c [])) = []"
    by (simp add: r exStart_def)
  have p': "parseMessage ?d (exRaw ''other'') = (Inr exOther, [Parser_Parse ''other''])"
    by (simp add: ex_parseMessage exParse_def)
  have k': "Kind exOther = SpotInterruptionKind" "EC2InstanceIDs exOther = [''i-999'']"
    "StartTime exOther = 100"
    by (simp_all add: exOther_def)
  have n': "Now ?d = (\<lambda>h. 160)" "DeleteSQSMessage ?d = (\<lambda>h m. Some (ErrorString ''throttled''))"
    by (simp_all add: exEnv_def)
  have hm': "handleMessage ?d exIndex Map.empty h exOther =
              (None, [Metric_receivedMessages_Inc SpotInterruptionKind,
                      Metric_messageLatency_Observe 60])" for h
    by (simp add: handleMessage_def k' n' exIndex_def Sub_160_100)
  have r': "Reconcile ?d [] =
       (Some (Errorf ''deleting sqs message'' (ErrorString ''throttled'')),
        exStart ''other'' @
        [Parser_Parse ''other'', Metric_receivedMessages_Inc SpotInterruptionKind,
         Metric_messageLatency_Observe 60,
         SQS_DeleteSQSMessage (exRaw ''other'') (Some (ErrorString ''throttled''))])"
    by (simp add: ex_Reconcile doWorkPiece_def deleteMessage_def p' hm' n' Combine_def)
  have c: "count_list (snd (Reconcile ?d [])) Metric_deletedMessages_Inc = 0"
    by (simp add: r' exStart_def)
  let ?z = "(exEnv ''zero'' [exClaim] None None) \<lparr> Now := (\<lambda>h. 63929157495209094855) \<rparr>"
  have pz: "parseMessage ?z (exRaw ''zero'') = (Inr exZero, [Parser_Parse ''zero''])"
    by (simp add: parseMessage_def exEnv_def exRaw_def exParse_def)
  have kz: "Kind exZero = SpotInterruptionKind" "EC2InstanceIDs exZero = [''i-999'']"
    "StartTime exZero = 0"
    by (simp_all add: exZero_def)
  have nz: "Now ?z = (\<lambda>h. 63929157495209094855)" "DeleteSQSMessage ?z = (\<lambda>h m. None)"
    by (simp_all add: exEnv_def)
  have sz: "Sub 63929157495209094855 0 = 9223372036854775807"
    by (simp add: Sub_def minDuration_def maxDuration_def)
  have hz: "handleMessage ?z exIndex Map.empty h exZero =
              (None, [Metric_receivedMessages_Inc SpotInterruptionKind,
                      Metric_messageLatency_Observe 9223372036854775807])" for h
    by (simp add: handleMessage_def kz nz exIndex_def sz)
  have dz: "doWorkPiece ?z exIndex Map.empty [] (exRaw ''zero'') =
       (None,
        [Parser_Parse ''zero'', Metric_receivedMessages_Inc SpotInterruptionKind,
         Metric_messageLatency_Observe 9223372036854775807,
         SQS_DeleteSQSMessage (exRaw ''zero'') None, Metric_deletedMessages_Inc])"
    by (simp add: doWorkPiece_def deleteMessage_def pz hz nz)
  have tz: "Now ?z [Parser_Parse ''zero'', Metric_receivedMessages_Inc SpotInterruptionKind]
              - StartTime exZero = 63929157495209094855"
    by (simp add: nz kz)
  from pz have pz': "fst (parseMessage ?z (exRaw ''zero'')) = Inr exZero" by simp
  from p k hm r l p' hm' r' c pz' tz dz show ?thesis by simp
qed

subsection \<open>A message whose handling failed\<close>

text \<open>
  C1. In a run of \<open>Reconcile\<close> that reaches the pieces, take a message that parses
  and for which \<open>handleMessage\<close> returns an error \<open>e\<close>. Its piece stores the
  wrapped error in its slot, and its calls are those of the parse and of the handling
  only: no delete of a queue message and no count of a deleted message. \<open>Reconcile\<close>
  returns an error, which holds the error of the slot. And whenever a delete of a
  NodeClaim made by \<open>handleMessage\<close> answers an error that is not a not-found error,
  \<open>handleMessage\<close> returns an error.
\<close>

theorem Reconcile_retry_on_failure:
  fixes c :: env and h h0 :: history and raws :: "raw list" and i :: nat
    and m :: "string \<rightharpoonup> NodeClaim" and n :: "string \<rightharpoonup> Node" and msg :: Message
  defines "parsed \<equiv> snd (parseMessage c (raws ! i))"
  defines "handled \<equiv> snd (handleMessage c m n (pieceHistory c m n h0 raws i @ parsed) msg)"
  assumes "fanOut c h = Some (raws, m, n, h0)" and "i < length raws"
    and "fst (parseMessage c (raws ! i)) = Inr msg"
    and "fst (handleMessage c m n (pieceHistory c m n h0 raws i @ parsed) msg) = Some e"
  shows "ParallelizeUntil c m n h0 raws ! i = (Some (Errorf ''handling message'' e), parsed @ handled)
         \<and> filter isQueueDelete (parsed @ handled) = []
         \<and> count_list (parsed @ handled) Metric_deletedMessages_Inc = 0
         \<and> (\<exists>agg. fst (Reconcile c h) = Some agg
                \<and> Errorf ''handling message'' e \<in> set (Errors agg))
         \<and> (\<forall>h' msg' nc err.
               Kube_Delete nc (Some err) \<in> set (snd (handleMessage c m n h' msg'))
               \<and> \<not> IsNotFound err \<longrightarrow>
               fst (handleMessage c m n h' msg') \<noteq> None)"
proof -
  have slot: "ParallelizeUntil c m n h0 raws ! i =
                (Some (Errorf ''handling message'' e), parsed @ handled)"
    using assms(4-6)
    by (simp add: ParallelizeUntil_nth doWorkPiece_handle_failure parsed_def handled_def)
  have q: "filter isQueueDelete (parsed @ handled) = []"
    by (simp add: parsed_def handled_def parseMessage_effects handleMessage_no_queue_delete)
  have k: "count_list (parsed @ handled) Metric_deletedMessages_Inc = 0"
    by (simp add: parsed_def handled_def parseMessage_effects handleMessage_no_deleted_count)
  from slot have "fst (ParallelizeUntil c m n h0 raws ! i) = Some (Errorf ''handling message'' e)"
    by simp
  from slot_in_Reconcile [OF assms(3,4) this]
  have agg: "\<exists>agg. fst (Reconcile c h) = Some agg
                \<and> Errorf ''handling message'' e \<in> set (Errors agg)"
    by auto
  from slot q k agg show ?thesis
    by (auto dest: handleMessage_failed)
qed

theorem Reconcile_retry_on_failure_witness:
  "fanOut (exEnv ''spot'' [exClaim] (Some (OtherStatus ''Conflict'')) None) [] =
     Some ([exRaw ''spot''], exIndex, Map.empty, exStart ''spot'')
   \<and> fst (parseMessage (exEnv ''spot'' [exClaim] (Some (OtherStatus ''Conflict'')) None)
            ([exRaw ''spot''] ! 0)) = Inr exSpot
   \<and> fst (handleMessage (exEnv ''spot'' [exClaim] (Some (OtherStatus ''Conflict'')) None)
            exIndex Map.empty (exStart ''spot'' @ [Parser_Parse ''spot'']) exSpot) =
       Some (Errorf ''acting on NodeClaims''
         (Errorf ''deleting the node on interruption message'' (OtherStatus ''Conflict'')))
   \<and> fst (ParallelizeUntil (exEnv ''spot'' [exClaim] (Some (OtherStatus ''Conflict'')) None)
            exIndex Map.empty (exStart ''spot'') [exRaw ''spot''] ! 0) =
       Some (Errorf ''handling message'' (Errorf ''acting on NodeClaims''
         (Errorf ''deleting the node on interruption message'' (OtherStatus ''Conflict''))))
   \<and> fst (Reconcile (exEnv ''spot'' [exClaim] (Some (OtherStatus ''Conflict'')) None) []) \<noteq> None
   \<and> Kube_Delete exClaim (Some (OtherStatus ''Conflict''))
       \<in> set (snd (handleMessage (exEnv ''spot'' [exClaim] (Some (OtherStatus ''Conflict'')) None)
                      exIndex Map.empty [] exSpot))
   \<and> \<not> IsNotFound (OtherStatus ''Conflict'')
   \<and> fst (handleMessage (exEnv ''spot'' [exClaim] (Some (OtherStatus ''Conflict'')) None)
            exIndex Map.empty [] exSpot) \<noteq> None"
proof -
  let ?c = "exEnv ''spot'' [exClaim] (Some (OtherStatus ''Conflict'')) None"
  let ?e = "Errorf ''acting on NodeClaims''
         (Errorf ''deleting the node on interruption message'' (OtherStatus ''Conflict''))"
  have f: "fanOut ?c [] = Some ([exRaw ''spot''], exIndex, Map.empty, exStart ''spot'')"
    by (rule ex_fanOut)
  have i: "0 < length [exRaw ''spot'']" by simp
  have ps: "parseMessage ?c ([exRaw ''spot''] ! 0) = (Inr exSpot, [Parser_Parse ''spot''])"
    by (simp add: ex_parseMessage exParse_def)
  then have p: "fst (parseMessage ?c ([exRaw ''spot''] ! 0)) = Inr exSpot" by simp
  have hm: "fst (handleMessage ?c exIndex Map.empty
                  (pieceHistory ?c exIndex Map.empty (exStart ''spot'') [exRaw ''spot''] 0 @
                   snd (parseMessage ?c ([exRaw ''spot''] ! 0))) exSpot) = Some ?e"
    by (simp add: ex_handleMessage_conflict)
  note T = Reconcile_retry_on_failure [OF f i p hm]
  have hm': "fst (handleMessage ?c exIndex Map.empty (exStart ''spot'' @ [Parser_Parse ''spot''])
                exSpot) = Some ?e"
    by (simp add: ex_handleMessage_conflict)
  from T have slot: "fst (ParallelizeUntil ?c exIndex Map.empty (exStart ''spot'')
                       [exRaw ''spot''] ! 0) = Some (Errorf ''handling message'' ?e)"
    by simp
  from T have r: "fst (Reconcile ?c []) \<noteq> None" by auto
  have d: "Kube_Delete exClaim (Some (OtherStatus ''Conflict''))
             \<in> set (snd (handleMessage ?c exIndex Map.empty [] exSpot))"
    by (simp add: ex_handleMessage_conflict ex_handleNodeClaim_conflict)
  have nf: "\<not> IsNotFound (OtherStatus ''Conflict'')" by (simp add: IsNotFound_def)
  from T d nf have "fst (handleMessage ?c exIndex Map.empty [] exSpot) \<noteq> None" by blast
  with f p hm' slot r d nf show ?thesis by simp
qed

subsection \<open>A message that does not parse\<close>

text \<open>
  C4. In a run of \<open>Reconcile\<close> that reaches the pieces, the piece of a message that
  fails to parse logs the parse error and calls the delete of the message on the queue.
  Its slot is nil when the delete answers nil, and the wrapped error of the delete
  otherwise: the parse error is in the log line only. \<open>Reconcile\<close> returns the
  combination of the slots, so it returns no error when the delete answered nil and the
  other slots are nil. A nil message and a message with no body fail to parse.
\<close>

theorem Reconcile_parse_failure:
  fixes c :: env and h h0 :: history and raws :: "raw list" and i :: nat
    and m :: "string \<rightharpoonup> NodeClaim" and n :: "string \<rightharpoonup> Node"
  defines "logged \<equiv> (\<lambda>pe. snd (parseMessage c (raws ! i)) @ [Log_Errorf ''parsing message'' pe])"
  defines "d \<equiv> (\<lambda>pe. DeleteSQSMessage c (pieceHistory c m n h0 raws i @ logged pe) (raws ! i))"
  assumes "fanOut c h = Some (raws, m, n, h0)" and "i < length raws"
    and "fst (parseMessage c (raws ! i)) = Inl pe"
  shows "ParallelizeUntil c m n h0 raws ! i =
           (case d pe of None \<Rightarrow> None | Some err \<Rightarrow> Some (Errorf ''deleting sqs message'' err),
            logged pe @ SQS_DeleteSQSMessage (raws ! i) (d pe) #
              (if d pe = None then [Metric_deletedMessages_Inc] else []))
         \<and> fst (Reconcile c h) = Combine (map fst (ParallelizeUntil c m n h0 raws))
         \<and> (d pe = None
              \<and> (\<forall>j < length raws. j \<noteq> i \<longrightarrow> fst (ParallelizeUntil c m n h0 raws ! j) = None)
              \<longrightarrow> fst (Reconcile c h) = None)
         \<and> fst (parseMessage c None) = Inl (ErrorString ''message or message body is nil'')
         \<and> (\<forall>r. Body r = None \<longrightarrow>
               fst (parseMessage c (Some r)) = Inl (ErrorString ''message or message body is nil''))"
proof -
  let ?ps = "ParallelizeUntil c m n h0 raws"
  have slot: "?ps ! i =
           (case d pe of None \<Rightarrow> None | Some err \<Rightarrow> Some (Errorf ''deleting sqs message'' err),
            logged pe @ SQS_DeleteSQSMessage (raws ! i) (d pe) #
              (if d pe = None then [Metric_deletedMessages_Inc] else []))"
    using assms(4,5)
    by (simp add: ParallelizeUntil_nth doWorkPiece_parse_failure d_def logged_def)
  have r: "fst (Reconcile c h) = Combine (map fst ?ps)"
    using Reconcile_fanOut [OF assms(3)] by simp
  have none: "fst (Reconcile c h) = None"
    if "d pe = None" and "\<forall>j < length raws. j \<noteq> i \<longrightarrow> fst (?ps ! j) = None"
  proof -
    have "fst (?ps ! j) = None" if "j < length raws" for j
      using that \<open>d pe = None\<close> \<open>\<forall>j < length raws. j \<noteq> i \<longrightarrow> fst (?ps ! j) = None\<close> slot
      by (cases "j = i") simp_all
    then have "\<forall>j < length ?ps. fst (?ps ! j) = None"
      by (simp add: ParallelizeUntil_length)
    then have "\<forall>e \<in> set (map fst ?ps). e = None"
      by (metis in_set_conv_nth length_map nth_map)
    with r show ?thesis by (simp add: Combine_None)
  qed
  have nil: "fst (parseMessage c None) = Inl (ErrorString ''message or message body is nil'')"
    by (simp add: parseMessage_def)
  have absent: "\<forall>r. Body r = None \<longrightarrow>
               fst (parseMessage c (Some r)) = Inl (ErrorString ''message or message body is nil'')"
    by (simp add: parseMessage_def)
  from slot r none nil absent show ?thesis by blast
qed

theorem Reconcile_parse_failure_witness:
  "fanOut (exEnv ''{'' [exClaim] None None) [] =
     Some ([exRaw ''{''], exIndex, Map.empty, exStart ''{'')
   \<and> fst (parseMessage (exEnv ''{'' [exClaim] None None) ([exRaw ''{''] ! 0)) =
       Inl (Errorf ''parsing sqs message'' (ErrorString ''unexpected end of JSON input''))
   \<and> ParallelizeUntil (exEnv ''{'' [exClaim] None None) exIndex Map.empty (exStart ''{'')
        [exRaw ''{''] ! 0 =
       (None,
        [Parser_Parse ''{'',
         Log_Errorf ''parsing message''
           (Errorf ''parsing sqs message'' (ErrorString ''unexpected end of JSON input'')),
         SQS_DeleteSQSMessage (exRaw ''{'') None,
         Metric_deletedMessages_Inc])
   \<and> fst (Reconcile (exEnv ''{'' [exClaim] None None) []) = None"
proof -
  let ?c = "exEnv ''{'' [exClaim] None None"
  let ?pe = "Errorf ''parsing sqs message'' (ErrorString ''unexpected end of JSON input'')"
  have f: "fanOut ?c [] = Some ([exRaw ''{''], exIndex, Map.empty, exStart ''{'')"
    by (rule ex_fanOut)
  have i: "0 < length [exRaw ''{'']" by simp
  have ps: "parseMessage ?c (exRaw ''{'') = (Inl ?pe, [Parser_Parse ''{''])"
    by (simp add: ex_parseMessage exParse_def)
  then have p: "fst (parseMessage ?c ([exRaw ''{''] ! 0)) = Inl ?pe" by simp
  have q: "DeleteSQSMessage ?c = (\<lambda>h m. None)" by (simp add: exEnv_def)
  note T = Reconcile_parse_failure [OF f i p]
  from T have slot: "ParallelizeUntil ?c exIndex Map.empty (exStart ''{'') [exRaw ''{''] ! 0 =
       (None,
        [Parser_Parse ''{'', Log_Errorf ''parsing message'' ?pe,
         SQS_DeleteSQSMessage (exRaw ''{'') None, Metric_deletedMessages_Inc])"
    by (simp add: q ps)
  from T have r: "fst (Reconcile ?c []) = None"
    by (simp add: q Combine_def)
  from f p slot r show ?thesis by simp
qed

text \<open>
  C9. In a run of \<open>Reconcile\<close> that reaches the pieces, when the delete of a message
  that fails to parse answers an error, \<open>Reconcile\<close> returns an error that holds
  the wrapped error of that delete.
\<close>

theorem Reconcile_unparseable_delete_error:
  fixes c :: env and h h0 :: history and raws :: "raw list" and i :: nat
    and m :: "string \<rightharpoonup> NodeClaim" and n :: "string \<rightharpoonup> Node"
  assumes "fanOut c h = Some (raws, m, n, h0)" and "i < length raws"
    and "fst (parseMessage c (raws ! i)) = Inl pe"
    and "DeleteSQSMessage c
           (pieceHistory c m n h0 raws i @ snd (parseMessage c (raws ! i)) @
            [Log_Errorf ''parsing message'' pe])
           (raws ! i) = Some err"
  shows "\<exists>agg. fst (Reconcile c h) = Some agg
           \<and> Errorf ''deleting sqs message'' err \<in> set (Errors agg)"
proof -
  have "fst (ParallelizeUntil c m n h0 raws ! i) = Some (Errorf ''deleting sqs message'' err)"
    using assms(2-4) by (simp add: ParallelizeUntil_nth doWorkPiece_parse_failure)
  from slot_in_Reconcile [OF assms(1,2) this] show ?thesis by auto
qed

theorem Reconcile_unparseable_delete_error_witness:
  "fanOut (exEnv ''{'' [exClaim] None (Some (ErrorString ''throttled''))) [] =
     Some ([exRaw ''{''], exIndex, Map.empty, exStart ''{'')
   \<and> fst (parseMessage (exEnv ''{'' [exClaim] None (Some (ErrorString ''throttled'')))
            ([exRaw ''{''] ! 0)) =
       Inl (Errorf ''parsing sqs message'' (ErrorString ''unexpected end of JSON input''))
   \<and> DeleteSQSMessage (exEnv ''{'' [exClaim] None (Some (ErrorString ''throttled'')))
        (exStart ''{'' @
         [Parser_Parse ''{'',
          Log_Errorf ''parsing message''
            (Errorf ''parsing sqs message'' (ErrorString ''unexpected end of JSON input''))])
        (exRaw ''{'') = Some (ErrorString ''throttled'')
   \<and> (\<exists>agg. fst (Reconcile (exEnv ''{'' [exClaim] None (Some (ErrorString ''throttled''))) []) =
               Some agg
             \<and> Errorf ''deleting sqs message'' (ErrorString ''throttled'') \<in> set (Errors agg))"
proof -
  let ?c = "exEnv ''{'' [exClaim] None (Some (ErrorString ''throttled''))"
  let ?pe = "Errorf ''parsing sqs message'' (ErrorString ''unexpected end of JSON input'')"
  have f: "fanOut ?c [] = Some ([exRaw ''{''], exIndex, Map.empty, exStart ''{'')"
    by (rule ex_fanOut)
  have i: "0 < length [exRaw ''{'']" by simp
  have ps: "parseMessage ?c ([exRaw ''{''] ! 0) = (Inl ?pe, [Parser_Parse ''{''])"
    by (simp add: ex_parseMessage exParse_def)
  then have p: "fst (parseMessage ?c ([exRaw ''{''] ! 0)) = Inl ?pe" by simp
  have q: "DeleteSQSMessage ?c = (\<lambda>h m. Some (ErrorString ''throttled''))"
    by (simp add: exEnv_def)
  have d: "DeleteSQSMessage ?c
           (pieceHistory ?c exIndex Map.empty (exStart ''{'') [exRaw ''{''] 0 @
            snd (parseMessage ?c ([exRaw ''{''] ! 0)) @ [Log_Errorf ''parsing message'' ?pe])
           ([exRaw ''{''] ! 0) = Some (ErrorString ''throttled'')"
    by (simp add: q)
  note T = Reconcile_unparseable_delete_error [OF f i p d]
  have d': "DeleteSQSMessage ?c (exStart ''{'' @ [Parser_Parse ''{'', Log_Errorf ''parsing message'' ?pe])
        (exRaw ''{'') = Some (ErrorString ''throttled'')"
    by (simp add: q)
  from f p d' T show ?thesis by simp
qed

subsection \<open>A listing that fails\<close>

text \<open>
  C6. With a batch of messages that is not empty, when the listing of the NodeClaims
  fails, or the listing of the Nodes after it, \<open>Reconcile\<close> returns the wrapped
  error of the listing, and its calls are the fetch of the messages and the listings
  only: no message is parsed, handled or deleted.
\<close>

theorem Reconcile_listing_failure:
  fixes c :: env and h :: history and raws :: "raw list"
  defines "fetched \<equiv> SQS_GetSQSMessages (Inr raws)"
  assumes "GetSQSMessages c h = Inr raws" and "raws \<noteq> []"
  shows "(\<forall>err. ListNodeClaims c (h @ [fetched]) = Inl err \<longrightarrow>
            Reconcile c h =
              (Some (Errorf ''making nodeclaim instance id map'' err),
               [fetched, Kube_ListNodeClaims (Inl err)]))
         \<and> (\<forall>items err.
              ListNodeClaims c (h @ [fetched]) = Inr items
              \<and> ListNodes c (h @ [fetched, Kube_ListNodeClaims (Inr items)]) = Inl err \<longrightarrow>
              Reconcile c h =
                (Some (Errorf ''making node instance id map'' (Errorf ''listing nodes'' err)),
                 [fetched, Kube_ListNodeClaims (Inr items), Kube_ListNodes (Inl err)]))"
  using assms(2,3)
  by (simp add: Reconcile_def makeNodeClaimInstanceIDMap_def makeNodeInstanceIDMap_def
      Let_def fetched_def)

theorem Reconcile_listing_failure_witness:
  "GetSQSMessages (exEnv ''spot'' [exClaim] None None) [] = Inr [exRaw ''spot'']
   \<and> [exRaw ''spot''] \<noteq> []
   \<and> Reconcile
       ((exEnv ''spot'' [exClaim] None None)
          \<lparr> ListNodeClaims := (\<lambda>h. Inl (ErrorString ''timeout'')) \<rparr>) [] =
       (Some (Errorf ''making nodeclaim instance id map'' (ErrorString ''timeout'')),
        [SQS_GetSQSMessages (Inr [exRaw ''spot'']),
         Kube_ListNodeClaims (Inl (ErrorString ''timeout''))])
   \<and> Reconcile
       ((exEnv ''spot'' [exClaim] None None)
          \<lparr> ListNodes := (\<lambda>h. Inl (ErrorString ''timeout'')) \<rparr>) [] =
       (Some (Errorf ''making node instance id map''
                (Errorf ''listing nodes'' (ErrorString ''timeout''))),
        [SQS_GetSQSMessages (Inr [exRaw ''spot'']),
         Kube_ListNodeClaims (Inr [exClaim]),
         Kube_ListNodes (Inl (ErrorString ''timeout''))])"
proof -
  let ?c = "exEnv ''spot'' [exClaim] None None"
  let ?c1 = "?c \<lparr> ListNodeClaims := (\<lambda>h. Inl (ErrorString ''timeout'')) \<rparr>"
  let ?c2 = "?c \<lparr> ListNodes := (\<lambda>h. Inl (ErrorString ''timeout'')) \<rparr>"
  have g: "GetSQSMessages ?c [] = Inr [exRaw ''spot'']"
    "GetSQSMessages ?c1 [] = Inr [exRaw ''spot'']" "GetSQSMessages ?c2 [] = Inr [exRaw ''spot'']"
    by (simp_all add: exEnv_def)
  have ne: "[exRaw ''spot''] \<noteq> []" by simp
  have l1: "ListNodeClaims ?c1 = (\<lambda>h. Inl (ErrorString ''timeout''))" by simp
  have l2: "ListNodeClaims ?c2 = (\<lambda>h. Inr [exClaim])"
    "ListNodes ?c2 = (\<lambda>h. Inl (ErrorString ''timeout''))"
    by (simp_all add: exEnv_def)
  from Reconcile_listing_failure [OF g(2) ne] l1
  have r1: "Reconcile ?c1 [] =
       (Some (Errorf ''making nodeclaim instance id map'' (ErrorString ''timeout'')),
        [SQS_GetSQSMessages (Inr [exRaw ''spot'']),
         Kube_ListNodeClaims (Inl (ErrorString ''timeout''))])"
    by simp
  from Reconcile_listing_failure [OF g(3) ne] l2
  have r2: "Reconcile ?c2 [] =
       (Some (Errorf ''making node instance id map''
                (Errorf ''listing nodes'' (ErrorString ''timeout''))),
        [SQS_GetSQSMessages (Inr [exRaw ''spot'']),
         Kube_ListNodeClaims (Inr [exClaim]),
         Kube_ListNodes (Inl (ErrorString ''timeout''))])"
    by simp
  from g(1) ne r1 r2 show ?thesis by simp
qed

end
